theory Spec2Isabelle
  imports Main "HOL-Library.Sublist"
begin

section \<open>JavaScript strings and the string operations the generator uses\<close>

text \<open>
  Strings are \<^typ>\<open>string\<close>, one \<^typ>\<open>char\<close> per character. Type and field names
  are ASCII (they become Solidity identifiers), so the JavaScript character
  classes \<^verbatim>\<open>[a-z]\<close>, \<^verbatim>\<open>[A-Z]\<close>, \<^verbatim>\<open>[0-9]\<close> and \<^verbatim>\<open>toUpperCase\<close> are modelled on
  ASCII codes.
\<close>

definition TAB :: string where
  "TAB = [CHR 0x09]"
definition QUOTE :: string where
  "QUOTE = [CHR 0x27]"

definition BACKSLASH :: string where
  "BACKSLASH = [CHR 0x5C]"


definition isLower :: "char \<Rightarrow> bool" where
  "isLower c = (97 \<le> (of_char c :: nat) \<and> (of_char c :: nat) \<le> 122)"

definition isUpper :: "char \<Rightarrow> bool" where
  "isUpper c = (65 \<le> (of_char c :: nat) \<and> (of_char c :: nat) \<le> 90)"

definition isDigit :: "char \<Rightarrow> bool" where
  "isDigit c = (48 \<le> (of_char c :: nat) \<and> (of_char c :: nat) \<le> 57)"

text \<open>\<^verbatim>\<open>s.includes(sub)\<close>: \<^verbatim>\<open>sub\<close> occurs somewhere in \<^verbatim>\<open>s\<close>.\<close>

fun str_includes :: "string \<Rightarrow> string \<Rightarrow> bool" where
  "str_includes [] sub = (sub = [])"
| "str_includes (c # cs) sub = (prefix sub (c # cs) \<or> str_includes cs sub)"

text \<open>\<^verbatim>\<open>s.replace(pat, rep)\<close> with a string pattern: the first occurrence only.\<close>

fun replace :: "string \<Rightarrow> string \<Rightarrow> string \<Rightarrow> string" where
  "replace [] pat rep = (if pat = [] then rep else [])"
| "replace (c # cs) pat rep =
     (if prefix pat (c # cs) then rep @ drop (length pat) (c # cs)
      else c # replace cs pat rep)"

text \<open>\<^verbatim>\<open>s.slice(0, s.length - 2)\<close> (and \<^verbatim>\<open>substr\<close> with the same arguments): a negative
  end on a string shorter than two characters gives the empty string, as the
  truncating subtraction does here.\<close>

definition dropArrayMarker :: "string \<Rightarrow> string" where
  "dropArrayMarker s = take (length s - 2) s"

text \<open>\<^verbatim>\<open>xs.join(sep)\<close>.\<close>

fun join :: "string \<Rightarrow> string list \<Rightarrow> string" where
  "join sep [] = []"
| "join sep [x] = x"
| "join sep (x # y # ys) = x @ sep @ join sep (y # ys)"

text \<open>
  The three global regular-expression replacements of the type-hash name. A global
  replace scans left to right and resumes after the end of each match:
  \<^verbatim>\<open>.replace(/([a-z])([A-Z])/g, '$1_$2')\<close>,
  \<^verbatim>\<open>.replace(/([A-Z])([A-Z])(?=[a-z])/g, '$1_$2')\<close> (the lookahead is not consumed),
  \<^verbatim>\<open>.replace(/([0-9])([A-Z])/g, '$1_$2')\<close>.
\<close>

fun replaceLowerUpper :: "string \<Rightarrow> string" where
  "replaceLowerUpper (a # b # cs) =
     (if isLower a \<and> isUpper b then a # CHR ''_'' # b # replaceLowerUpper cs
      else a # replaceLowerUpper (b # cs))"
| "replaceLowerUpper cs = cs"

fun replaceUpperUpperLower :: "string \<Rightarrow> string" where
  "replaceUpperUpperLower (a # b # c # cs) =
     (if isUpper a \<and> isUpper b \<and> isLower c then a # CHR ''_'' # b # replaceUpperUpperLower (c # cs)
      else a # replaceUpperUpperLower (b # c # cs))"
| "replaceUpperUpperLower cs = cs"

fun replaceDigitUpper :: "string \<Rightarrow> string" where
  "replaceDigitUpper (a # b # cs) =
     (if isDigit a \<and> isUpper b then a # CHR ''_'' # b # replaceDigitUpper cs
      else a # replaceDigitUpper (b # cs))"
| "replaceDigitUpper cs = cs"

text \<open>\<^verbatim>\<open>toUpperCase\<close>: a lower-case letter loses 32, which is bit 5 of its code.\<close>

definition upperChar :: "char \<Rightarrow> char" where
  "upperChar c =
     (if isLower c
      then (case c of Char b0 b1 b2 b3 b4 b5 b6 b7 \<Rightarrow> Char b0 b1 b2 b3 b4 False b6 b7)
      else c)"

definition toUpperCase :: "string \<Rightarrow> string" where
  "toUpperCase s = map upperChar s"

section \<open>Configuration and external collaborators\<close>

text \<open>
  The configuration type is declared outside \<^verbatim>\<open>sol.ts\<close>; the record holds the members
  the generator reads. \<^verbatim>\<open>config.types\<close> is a JavaScript object: an association list in
  the order \<^verbatim>\<open>Object.keys\<close> enumerates it, looked up by name; the keys of an object are
  distinct, which the properties below assume where they need it.

  \<^verbatim>\<open>dangerous.packetHashName\<close> is a caller-supplied function on strings. The signer
  block passes it \<^verbatim>\<open>undefined\<close> (through a cast) when a type has no field other than
  \<^verbatim>\<open>signature\<close>; \<open>packetHashNameUndefined\<close> says what the function does there:
  \<open>None\<close> when it throws, otherwise the text it returns.
\<close>

record Contract =
  name :: string
  license :: string
  solidity :: string
  authors :: string

record TypedDataParameter =
  name :: string
  type :: string

record Dangerous =
  useOverloads :: bool
  packetHashName :: "string \<Rightarrow> string"
  packetHashNameUndefined :: "string option"

type_synonym TypedData = "(string \<times> TypedDataParameter list) list"

record Config =
  contract :: Contract
  types :: TypedData
  dangerous :: Dangerous

text \<open>
  The libraries the generator calls, none of them part of this repository.
  \<^verbatim>\<open>new TypedDataEncoder(types)\<close> (ethers) either throws, with the library's message, or
  yields an encoder whose \<^verbatim>\<open>encodeType\<close> maps a type name to its canonical signature.
  \<^verbatim>\<open>TypedDataType.safeParse(t).success\<close> (abitype) is the library's test for a basic
  type. \<^verbatim>\<open>keccak256(toUtf8Bytes(text))\<close> (ethers) is the hash of a text, as a hex string.
  \<^verbatim>\<open>dedent\<close> is a template tag: it receives the literal parts of the template and the
  interpolated values.
\<close>

record Collaborators =
  TypedDataEncoder :: "TypedData \<Rightarrow> string + (string \<Rightarrow> string)"
  safeParse :: "string \<Rightarrow> bool"
  keccak256 :: "string \<Rightarrow> string"
  dedent :: "string list \<Rightarrow> string list \<Rightarrow> string"

section \<open>Name resolution\<close>

definition getPacketHashGetterName :: "Config \<Rightarrow> string \<Rightarrow> string" where
  "getPacketHashGetterName config typeName =
     (if str_includes typeName ''[]'' then
        (if useOverloads (dangerous config) then ''getArrayHash''
         else ''get'' @ packetHashName (dangerous config) (dropArrayMarker typeName) @ ''ArrayHash'')
      else if useOverloads (dangerous config) then ''getHash''
      else ''get'' @ packetHashName (dangerous config) typeName @ ''Hash'')"

definition getDigestGetterName :: "Config \<Rightarrow> string \<Rightarrow> string" where
  "getDigestGetterName config typeName =
     (if useOverloads (dangerous config) then ''getDigest''
      else ''get'' @ packetHashName (dangerous config) typeName @ ''Digest'')"

definition getSignerGetterName :: "Config \<Rightarrow> string \<Rightarrow> string" where
  "getSignerGetterName config typeName =
     (if useOverloads (dangerous config) then ''getSigner''
      else ''get'' @ packetHashName (dangerous config) typeName @ ''Signer'')"

text \<open>The upper-snake-case transform, and the constant name built from it.\<close>

definition upperSnake :: "string \<Rightarrow> string" where
  "upperSnake typeName =
     toUpperCase (replaceDigitUpper (replaceUpperUpperLower (replaceLowerUpper typeName)))"

definition typeHashName :: "string \<Rightarrow> string" where
  "typeHashName typeName = upperSnake typeName @ ''_TYPEHASH''"

section \<open>Field encoding\<close>

definition getEncodedValueFor :: "Collaborators \<Rightarrow> Config \<Rightarrow> TypedDataParameter \<Rightarrow> string" where
  "getEncodedValueFor ext config field =
     (if type field = ''bytes'' then ''keccak256($input.'' @ name field @ '')''
      else if type field = ''string'' then ''keccak256(bytes($input.'' @ name field @ ''))''
      else if safeParse ext (type field) then ''$input.'' @ name field
      else getPacketHashGetterName config (type field) @ ''($input.'' @ name field @ '')'')"

section \<open>Artifacts\<close>

text \<open>
  A documentation page is \<^verbatim>\<open>{ path, markdown }\<close>. The markdown text is prose around the
  same names and implementation text and no property below reads it, so the record
  keeps the path only. A getter is the pair \<^verbatim>\<open>[page, solidity]\<close>.

  The arrays of getters and pages end in \<^verbatim>\<open>[...new Set(xs)]\<close>, and a JavaScript \<^verbatim>\<open>Set\<close>
  compares objects by identity. Every object literal evaluated is a new object, so an
  element of such an array is modelled with the number of its allocation beside its
  contents.
\<close>

record Documentation =
  path :: string

type_synonym Getter = "Documentation \<times> string"

type_synonym 'a obj = "nat \<times> 'a"

record TypeSetup =
  struct :: string
  typeHash :: string

record Generation =
  results :: "TypeSetup list"
  typeHashGetters :: "Documentation obj list"
  packetHashGetters :: "Getter obj list"
  digestGetters :: "Getter obj list"
  signerGetters :: "Getter obj list"

text \<open>\<open>results\<close> is the array returned under the key \<^verbatim>\<open>setup\<close>.\<close>

datatype error = EncoderError string | PacketHashNameError

text \<open>\<^verbatim>\<open>[...new Set(xs)]\<close>: a set keeps insertion order and ignores an element it already
  holds (the same object).\<close>

definition Set_add :: "'a obj list \<Rightarrow> 'a obj \<Rightarrow> 'a obj list" where
  "Set_add s x = (if fst x \<in> fst ` set s then s else s @ [x])"

definition newSet :: "'a obj list \<Rightarrow> 'a obj list" where
  "newSet xs = foldl Set_add [] xs"

text \<open>\<^verbatim>\<open>xs.forEach(f)\<close> where \<^verbatim>\<open>f\<close> updates the enclosing state and may throw.\<close>

fun forEach :: "('a \<Rightarrow> 's \<Rightarrow> error + 's) \<Rightarrow> 'a list \<Rightarrow> 's \<Rightarrow> error + 's" where
  "forEach f [] s = Inr s"
| "forEach f (x # xs) s = (case f x s of Inl e \<Rightarrow> Inl e | Inr s' \<Rightarrow> forEach f xs s')"

definition fieldLiteral :: "TypedDataParameter \<Rightarrow> string" where
  \<open>fieldLiteral field =
     ''{ name: '' @ QUOTE @ name field @ QUOTE @ '', type: '' @ QUOTE @ type field @ QUOTE @ '' }''\<close>

definition structMember :: "TypedDataParameter \<Rightarrow> string" where
  \<open>structMember field = TAB @ type field @ '' '' @ name field @ '';\<newline>''\<close>

section \<open>First variant of the file: \<open>generateSolidity\<close>, without digests and signers\<close>

definition getArrayPacketHashGetter1_documentation :: "string \<Rightarrow> string" where
  \<open>getArrayPacketHashGetter1_documentation typeName =
     ''\<newline>'' @
     ''* @notice Encode '' @ typeName @ '' data into hash and verify the \<newline>'' @
     ''*         decoded '' @ typeName @ '' data from a packet hash to verify type compliance.\<newline>'' @
     ''* @param $input The '' @ typeName @ '' data to encode. \<newline>'' @
     ''* @return $hash The packet hash of the encoded '' @ typeName @ '' data.''\<close>

definition getArrayPacketHashGetter1_implementation :: "Config \<Rightarrow> string \<Rightarrow> string" where
  \<open>getArrayPacketHashGetter1_implementation config typeName =
     ''function '' @ getPacketHashGetterName config typeName @ ''(\<newline>'' @
     TAB @ TAB @ Contract.name (contract config) @ ''Lib.'' @ typeName @ '' memory $input\<newline>'' @
     '') public pure virtual returns (bytes32 $hash) {\<newline>'' @
     TAB @ TAB @ ''/// @dev Load the stack.\<newline>'' @
     TAB @ TAB @ ''bytes memory encoded;\<newline>'' @
     TAB @ TAB @ ''uint256 i;\<newline>'' @
     TAB @ TAB @ ''uint256 length = $input.length;\<newline>'' @
     ''\<newline>'' @
     TAB @ TAB @ ''/// @dev Encode each item in the array.\<newline>'' @
     TAB @ TAB @ ''for (i; i < length; i++) {\<newline>'' @
     TAB @ TAB @ TAB @ ''encoded = bytes.concat(\<newline>'' @
     TAB @ TAB @ TAB @ TAB @ ''encoded,\<newline>'' @
     TAB @ TAB @ TAB @ TAB @ getPacketHashGetterName config (dropArrayMarker typeName) @ ''($input[i])\<newline>'' @
     TAB @ TAB @ TAB @ '');\<newline>'' @
     TAB @ TAB @ ''}\<newline>'' @
     ''    \<newline>'' @
     TAB @ TAB @ ''/// @dev Hash the encoded array.\<newline>'' @
     TAB @ TAB @ ''$hash = keccak256(encoded);\<newline>'' @
     ''}''\<close>

definition getArrayPacketHashGetter1 :: "Collaborators \<Rightarrow> Config \<Rightarrow> string \<Rightarrow> Getter" where
  \<open>getArrayPacketHashGetter1 ext config typeName =
     (let documentation = getArrayPacketHashGetter1_documentation typeName;
          implementation = getArrayPacketHashGetter1_implementation config typeName;
          functionImplementation =
            dedent ext
             [''\<newline>'' @
               TAB @ TAB @ ''/**'',
              ''\<newline>'' @
               TAB @ TAB @ '' */\<newline>'' @
               TAB @ TAB,
              []]
             [documentation,
              implementation]
      in (\<lparr>path = ''/hash-getters/'' @ getPacketHashGetterName config typeName @ ''.md''\<rparr>,
          functionImplementation))\<close>

definition getPacketHashGetters1_implementation ::
  "Collaborators \<Rightarrow> Config \<Rightarrow> string \<Rightarrow> TypedDataParameter list \<Rightarrow> string" where
  \<open>getPacketHashGetters1_implementation ext config typeName flds =
     (let typeHashName = upperSnake typeName;
          typeHashFields =
            join ('',\<newline>'' @ TAB @ TAB @ ''        '') (map (getEncodedValueFor ext config) flds)
      in ''function '' @ getPacketHashGetterName config typeName @ ''(\<newline>'' @
         ''      '' @ Contract.name (contract config) @ ''Lib.'' @ typeName @ '' memory $input\<newline>'' @
         '') public pure virtual returns (bytes32 $hash) {\<newline>'' @
         TAB @ ''    $hash = keccak256(\<newline>'' @
         TAB @ TAB @ TAB @ ''abi.encode(\<newline>'' @
         TAB @ TAB @ TAB @ TAB @ typeHashName @ ''_TYPEHASH,\<newline>'' @
         TAB @ TAB @ TAB @ TAB @ typeHashFields @ ''\<newline>'' @
         TAB @ TAB @ TAB @ '')\<newline>'' @
         TAB @ ''    );\<newline>'' @
         ''}'')\<close>

definition getPacketHashGetters1_documentation :: "Collaborators \<Rightarrow> string \<Rightarrow> string" where
  \<open>getPacketHashGetters1_documentation ext typeName =
     dedent ext
      [''\<newline>'' @
        TAB @ TAB @ TAB @ ''* @notice Encode '',
       '' data into a packet hash and verify decoded '',
       '' data \<newline>'' @
        ''     '' @ TAB @ TAB @ TAB @ ''*         from a packet hash to verify type compliance.\<newline>'' @
        ''     '' @ TAB @ TAB @ TAB @ ''* @param $input The '',
       '' data to encode.\<newline>'' @
        ''     '' @ TAB @ TAB @ TAB @ ''* @return $hash The packet hash of the encoded '',
       '' data.'']
      [typeName,
       typeName,
       typeName,
       typeName]\<close>

text \<open>The getter pushed first: the array getter when the type name itself contains
  \<^verbatim>\<open>[]\<close>, else the getter of the struct.\<close>

definition getPacketHashGetters1_first ::
  "Collaborators \<Rightarrow> Config \<Rightarrow> string \<Rightarrow> TypedDataParameter list \<Rightarrow> Getter" where
  \<open>getPacketHashGetters1_first ext config typeName flds =
     (if str_includes typeName ''[]'' then getArrayPacketHashGetter1 ext config typeName
      else
        (let documentation = getPacketHashGetters1_documentation ext typeName;
             implementation = getPacketHashGetters1_implementation ext config typeName flds;
             path =
               dedent ext
                [''/hash-getters/'',
                 ''.md'']
                [getPacketHashGetterName config typeName]
         in (\<lparr>path = path\<rparr>,
             dedent ext
              [''    /**'',
               ''\<newline>'' @
                TAB @ TAB @ TAB @ TAB @ ''    */'',
               []]
              [documentation,
               implementation])))\<close>

text \<open>Then one array getter for every field whose type contains \<^verbatim>\<open>[]\<close>; \<open>ref\<close> is
  the number of the next allocation.\<close>

definition getPacketHashGetters1 ::
  "Collaborators \<Rightarrow> Config \<Rightarrow> string \<Rightarrow> TypedDataParameter list \<Rightarrow>
   Getter obj list \<times> nat \<Rightarrow> Getter obj list \<times> nat" where
  \<open>getPacketHashGetters1 ext config typeName flds acc =
     (case acc of (getters, ref) \<Rightarrow>
        foldl (\<lambda>(getters, ref) field.
                 (getters @ [(ref, getArrayPacketHashGetter1 ext config (type field))], Suc ref))
          (getters @ [(ref, getPacketHashGetters1_first ext config typeName flds)], Suc ref)
          (filter (\<lambda>field. str_includes (type field) ''[]'') flds))\<close>

text \<open>The body of the loop over the type names; nothing in it throws.\<close>

definition generateSolidity_forEach ::
  "Collaborators \<Rightarrow> Config \<Rightarrow> (string \<Rightarrow> string) \<Rightarrow> string \<Rightarrow>
   (TypeSetup list \<times> Documentation obj list \<times> Getter obj list) \<times> nat \<Rightarrow>
   (TypeSetup list \<times> Documentation obj list \<times> Getter obj list) \<times> nat" where
  \<open>generateSolidity_forEach ext config encodeType typeName st =
     (case st of ((res, pages, getters), ref) \<Rightarrow>
       (let typeHashName = typeHashName typeName
        in case map_of (types config) typeName of
          None \<Rightarrow> st
        | Some flds \<Rightarrow>
          (let visualizedType = join ''\<newline>     *      '' (map fieldLiteral flds);
               typeHashDocumentation =
                 dedent ext
                  [''\<newline>'' @
                    TAB @ TAB @ TAB @ ''* @notice Type hash representing the '',
                   '' data type providing EIP-712\<newline>'' @
                    ''     '' @ TAB @ TAB @ TAB @ ''*         compatability for encoding and decoding.\<newline>'' @
                    ''     '' @ TAB @ TAB @ TAB @ ''* @dev '',
                   '' extends TypeHash<EIP712<{\<newline>'' @
                    ''     '' @ TAB @ TAB @ TAB @ ''*      '',
                   '' \<newline>'' @
                    TAB @ TAB @ TAB @ ''* }>>'']
                  [typeName,
                   typeHashName,
                   visualizedType];
               typeHashImplementation =
                 dedent ext
                  [''\<newline>'' @
                    TAB @ TAB @ TAB @ ''bytes32 constant '',
                   '' = \<newline>'' @
                    TAB @ TAB @ TAB @ TAB,
                   '';'']
                  [typeHashName,
                   keccak256 ext (encodeType typeName)];
               pages1 = pages @ [(ref, \<lparr>path = ''/base-types/'' @ typeName @ ''.md''\<rparr>)];
               typeHash =
                 dedent ext
                  [''    \<newline>'' @
                    TAB @ TAB @ TAB @ ''/**'',
                   ''\<newline>'' @
                    TAB @ TAB @ TAB @ '' */'',
                   []]
                  [typeHashDocumentation,
                   typeHashImplementation];
               pushed = getPacketHashGetters1 ext config typeName flds (getters, Suc ref);
               getters1 = fst pushed @ fst pushed;
               typeDefinition = join (''\<newline>     * '' @ TAB @ TAB) (map fieldLiteral flds);
               documentation =
                 dedent ext
                  [''* @notice This struct is used to encode '',
                   '' data into a hash and\<newline>'' @
                    TAB @ TAB @ ''     *         decode '',
                   '' data from a hash.\<newline>'' @
                    TAB @ TAB @ ''     * \<newline>'' @
                    TAB @ TAB @ ''     * @dev '',
                   '' extends EIP712<{\<newline>'' @
                    TAB @ TAB @ ''     *      '',
                   ''\<newline>'' @
                    TAB @ TAB @ ''     * }>'']
                  [typeName,
                   typeName,
                   typeName,
                   typeDefinition]
           in ((res @
                 [\<lparr>struct =
                     ''    /**\<newline>'' @
                     TAB @ TAB @ ''     '' @ documentation @ ''\<newline>'' @
                     TAB @ TAB @ ''     */\<newline>'' @
                     TAB @ TAB @ ''    struct '' @ typeName @ '' {\<newline>'' @
                     join [] (map structMember flds),
                   typeHash = typeHash\<rparr>],
                pages1, getters1), snd pushed))))\<close>

text \<open>The result is the triple of \<^verbatim>\<open>setup\<close>, \<^verbatim>\<open>typeHashGetters\<close> and
  \<^verbatim>\<open>packetHashGetters\<close>.\<close>

definition generateSolidity ::
  "Collaborators \<Rightarrow> Config \<Rightarrow>
   error + TypeSetup list \<times> Documentation obj list \<times> Getter obj list" where
  \<open>generateSolidity ext config =
     (case TypedDataEncoder ext (types config) of
        Inl message \<Rightarrow> Inl (EncoderError message)
      | Inr encodeType \<Rightarrow>
         (case foldl (\<lambda>st typeName. generateSolidity_forEach ext config encodeType typeName st)
                 (([], [], []), 0) (map fst (types config)) of
            ((res, pages, getters), ref) \<Rightarrow> Inr (res, newSet pages, newSet getters)))\<close>

section \<open>Packet hash getters (second variant of the file, with digests and signers)\<close>

definition getArrayPacketHashGetter2_documentation :: "string \<Rightarrow> string" where
  \<open>getArrayPacketHashGetter2_documentation typeName =
     ''\<newline>'' @
     ''     * @notice Encode '' @ typeName @ '' data into hash and verify the \<newline>'' @
     ''     *         decoded '' @ typeName @ '' data from a packet hash to verify type compliance.\<newline>'' @
     ''     * @param $input The '' @ typeName @ '' data to encode. \<newline>'' @
     ''     * @return $hash The packet hash of the encoded '' @ typeName @ '' data.''\<close>

definition getArrayPacketHashGetter2_implementation :: "Config \<Rightarrow> string \<Rightarrow> string" where
  \<open>getArrayPacketHashGetter2_implementation config typeName =
     ''function '' @ getPacketHashGetterName config typeName @ ''(\<newline>'' @
     ''        '' @ Contract.name (contract config) @ ''Lib.'' @ typeName @ '' memory $input\<newline>'' @
     ''    )  public pure virtual returns (bytes32 $hash) {\<newline>'' @
     ''        /// @dev Load the stack.\<newline>'' @
     ''        bytes memory encoded;\<newline>'' @
     ''        uint256 i;\<newline>'' @
     ''        uint256 length = $input.length;\<newline>'' @
     ''\<newline>'' @
     ''        /// @dev Encode each item in the array.\<newline>'' @
     ''        for (i; i < length;) {\<newline>'' @
     ''            encoded = bytes.concat(\<newline>'' @
     ''                encoded,\<newline>'' @
     ''                '' @ getPacketHashGetterName config (dropArrayMarker typeName) @ ''($input[i])\<newline>'' @
     ''            );\<newline>'' @
     ''\<newline>'' @
     ''            unchecked { i++; }\<newline>'' @
     ''        }\<newline>'' @
     ''        \<newline>'' @
     ''        /// @dev Hash the encoded array.\<newline>'' @
     ''        $hash = keccak256(encoded);\<newline>'' @
     ''    }''\<close>

definition getArrayPacketHashGetter2 :: "Config \<Rightarrow> string \<Rightarrow> Getter" where
  \<open>getArrayPacketHashGetter2 config typeName =
     (let documentation = getArrayPacketHashGetter2_documentation typeName;
          implementation = getArrayPacketHashGetter2_implementation config typeName
      in (\<lparr>path = ''/hash-getters/'' @ getPacketHashGetterName config typeName @ ''.md''\<rparr>,
          ''    /**'' @ documentation @ ''\<newline>'' @
          ''     */\<newline>'' @
          ''    '' @ implementation))\<close>

definition getPacketHashGetters2_documentation :: "string \<Rightarrow> string" where
  \<open>getPacketHashGetters2_documentation typeName =
     ''\<newline>'' @
     ''     * @notice Encode '' @ typeName @ '' data into a packet hash and verify decoded '' @ typeName @ '' data \<newline>'' @
     ''     *         from a packet hash to verify type compliance.\<newline>'' @
     ''     * @param $input The '' @ typeName @ '' data to encode.\<newline>'' @
     ''     * @return $hash The packet hash of the encoded '' @ typeName @ '' data.''\<close>

definition getPacketHashGetters2_implementation ::
  "Collaborators \<Rightarrow> Config \<Rightarrow> string \<Rightarrow> TypedDataParameter list \<Rightarrow> string" where
  \<open>getPacketHashGetters2_implementation ext config typeName flds =
     ''\<newline>'' @
     ''    function '' @ getPacketHashGetterName config typeName @ ''(\<newline>'' @
     ''        '' @ Contract.name (contract config) @ ''Lib.'' @ typeName @ '' memory $input\<newline>'' @
     ''    ) public pure virtual returns (bytes32 $hash) {\<newline>'' @
     ''        $hash = keccak256(abi.encode(\<newline>'' @
     ''            '' @ upperSnake typeName @ ''_TYPEHASH,\<newline>'' @
     ''            '' @ join ('',\<newline>'' @ TAB @ ''    '') (map (getEncodedValueFor ext config) flds) @ ''\<newline>'' @
     ''        ));\<newline>'' @
     ''    }''\<close>

text \<open>The loop over the fields: one more array getter for every field whose type
  contains \<^verbatim>\<open>[]\<close>, each a new object.\<close>

fun pushArrayGetters2 ::
  "Config \<Rightarrow> TypedDataParameter list \<Rightarrow> Getter obj list \<times> nat \<Rightarrow> Getter obj list \<times> nat" where
  "pushArrayGetters2 config [] (getters, ref) = (getters, ref)"
| "pushArrayGetters2 config (field # flds) (getters, ref) =
     (if str_includes (type field) ''[]''
      then pushArrayGetters2 config flds
             (getters @ [(ref, getArrayPacketHashGetter2 config (type field))], Suc ref)
      else pushArrayGetters2 config flds (getters, ref))"

text \<open>The getter \<open>getPacketHashGetters\<close> pushes first: the array getter when the type
  name itself contains \<^verbatim>\<open>[]\<close>, else the getter of the struct.\<close>

definition getPacketHashGetters2_first ::
  "Collaborators \<Rightarrow> Config \<Rightarrow> string \<Rightarrow> TypedDataParameter list \<Rightarrow> Getter" where
  \<open>getPacketHashGetters2_first ext config typeName flds =
     (if str_includes typeName ''[]'' then getArrayPacketHashGetter2 config typeName
      else
        (let documentation = getPacketHashGetters2_documentation typeName;
             implementation = getPacketHashGetters2_implementation ext config typeName flds
         in (\<lparr>path = ''/hash-getters/'' @ getPacketHashGetterName config typeName @ ''.md''\<rparr>,
             ''    /**'' @ documentation @ ''\<newline>'' @
             ''     */'' @ implementation)))\<close>

text \<open>\<open>getPacketHashGetters\<close> pushes onto the array it is given and returns that same
  array; \<open>ref\<close> is the number of the next allocation.\<close>

definition getPacketHashGetters2 ::
  "Collaborators \<Rightarrow> Config \<Rightarrow> string \<Rightarrow> TypedDataParameter list \<Rightarrow>
   Getter obj list \<times> nat \<Rightarrow> Getter obj list \<times> nat" where
  \<open>getPacketHashGetters2 ext config typeName flds acc =
     (case acc of (getters, ref) \<Rightarrow>
        pushArrayGetters2 config flds
          (getters @ [(ref, getPacketHashGetters2_first ext config typeName flds)], Suc ref))\<close>

section \<open>Generation (second variant): \<open>getSolidity\<close>\<close>

definition getSolidity_typeHash :: "(string \<Rightarrow> string) \<Rightarrow> string \<Rightarrow> TypedDataParameter list \<Rightarrow> string" where
  \<open>getSolidity_typeHash encodeType typeName flds =
     (let typeHashName = typeHashName typeName;
          typeHashDocumentation =
            ''\<newline>'' @
            ''     * @notice Type hash representing the '' @ typeName @ '' data type providing EIP-712\<newline>'' @
            ''     *         compatability for encoding and decoding.\<newline>'' @
            ''     * @dev '' @ typeHashName @ '' extends TypeHash<EIP712<{\<newline>'' @
            ''     *      '' @ join ''\<newline>     *      '' (map fieldLiteral flds) @ '' \<newline>'' @
            ''     * }>>'';
          typeHashImplementation =
            ''\<newline>'' @
            ''    bytes32 constant '' @ typeHashName @ '' = keccak256(\<newline>'' @
            ''        '' @ QUOTE @ encodeType typeName @ QUOTE @ ''\<newline>'' @
            ''    );''
      in ''    /**'' @ typeHashDocumentation @ ''\<newline>'' @
         ''     */'' @ typeHashImplementation)\<close>

definition getSolidity_struct :: "string \<Rightarrow> TypedDataParameter list \<Rightarrow> string" where
  \<open>getSolidity_struct typeName flds =
     (let documentation =
            ''* @notice This struct is used to encode '' @ typeName @ '' data into a hash and\<newline>'' @
            ''     *         decode '' @ typeName @ '' data from a hash.\<newline>'' @
            ''     * \<newline>'' @
            ''     * @dev '' @ typeName @ '' extends EIP712<{\<newline>'' @
            ''     * '' @ TAB @ TAB @ join (''\<newline>     * '' @ TAB @ TAB) (map fieldLiteral flds) @ ''\<newline>'' @
            ''     * }>''
      in ''    /**\<newline>'' @
         ''     '' @ documentation @ ''\<newline>'' @
         ''     */\<newline>'' @
         ''    struct '' @ typeName @ '' {\<newline>'' @
         join [] (map structMember flds) @ ''    }'')\<close>

definition getSolidity_digestImplementation :: "Config \<Rightarrow> string \<Rightarrow> string" where
  \<open>getSolidity_digestImplementation config typeName =
     ''\<newline>'' @
     ''    function '' @ getDigestGetterName config typeName @ ''(\<newline>'' @
     ''        '' @ Contract.name (contract config) @ ''Lib.'' @ typeName @ '' memory $input\<newline>'' @
     ''    ) public view virtual returns (bytes32 $digest) {\<newline>'' @
     ''        $digest = keccak256(\<newline>'' @
     ''            abi.encodePacked(\<newline>'' @
     ''                "'' @ BACKSLASH @ ''x19'' @ BACKSLASH @ ''x01",\<newline>'' @
     ''                domainHash,\<newline>'' @
     ''                '' @ getPacketHashGetterName config typeName @ ''($input)\<newline>'' @
     ''            )\<newline>'' @
     ''        );\<newline>'' @
     ''    }''\<close>

definition getSolidity_digestGetter :: "Config \<Rightarrow> string \<Rightarrow> Getter" where
  \<open>getSolidity_digestGetter config typeName =
     (let digestDocumentation =
            ''\<newline>'' @
            ''     * @notice Encode '' @ typeName @ '' data into a digest hash that has been \<newline>'' @
            ''     *         localized to the domain of the contract.\<newline>'' @
            ''     * @param $input The '' @ typeName @ '' data to encode.\<newline>'' @
            ''     * @return $digest The digest hash of the encoded '' @ typeName @ '' data.'';
          digestImplementation = getSolidity_digestImplementation config typeName
      in (\<lparr>path = ''/digest-getters/'' @ getDigestGetterName config typeName @ ''.md''\<rparr>,
          ''\<newline>'' @
          ''    /**'' @ digestDocumentation @ ''\<newline>'' @
          ''     */'' @ digestImplementation))\<close>

text \<open>
  The signer block. \<^verbatim>\<open>type.find(field => field.name !== 'signature')?.name\<close> is
  \<^verbatim>\<open>undefined\<close> when every field is called \<^verbatim>\<open>signature\<close>; a template then prints
  \<^verbatim>\<open>undefined\<close>, and \<^verbatim>\<open>getDigestGetterName(config, dataFieldName as string)\<close> hands
  \<^verbatim>\<open>undefined\<close> to \<^verbatim>\<open>packetHashName\<close> unless overloads are used.
\<close>

definition templateText :: "string option \<Rightarrow> string" where
  "templateText v = (case v of None \<Rightarrow> ''undefined'' | Some s \<Rightarrow> s)"

definition getDigestGetterName_cast :: "Config \<Rightarrow> string option \<Rightarrow> error + string" where
  "getDigestGetterName_cast config dataFieldName =
     (case dataFieldName of
        Some typeName \<Rightarrow> Inr (getDigestGetterName config typeName)
      | None \<Rightarrow>
          (if useOverloads (dangerous config) then Inr ''getDigest''
           else case packetHashNameUndefined (dangerous config) of
                  None \<Rightarrow> Inl PacketHashNameError
                | Some s \<Rightarrow> Inr (''get'' @ s @ ''Digest'')))"

definition getSolidity_signerImplementation :: "Config \<Rightarrow> string \<Rightarrow> string \<Rightarrow> string \<Rightarrow> string" where
  \<open>getSolidity_signerImplementation config typeName digestGetterName dataFieldName =
     ''\<newline>'' @
     ''    function '' @ getSignerGetterName config typeName @ ''(\<newline>'' @
     ''        '' @ Contract.name (contract config) @ ''Lib.'' @ typeName @ '' memory $input\<newline>'' @
     ''    ) public view virtual returns (address $signer) {\<newline>'' @
     ''        $signer = '' @ digestGetterName @ ''($input.'' @ dataFieldName @ '').recover(\<newline>'' @
     ''            $input.signature\<newline>'' @
     ''        );\<newline>'' @
     ''    }''\<close>

definition getSolidity_signerDocumentation :: "string \<Rightarrow> string" where
  \<open>getSolidity_signerDocumentation typeName =
     ''\<newline>'' @
     ''     * @notice Get the signer of a '' @ typeName @ '' data type.\<newline>'' @
     ''     * @param $input The '' @ typeName @ '' data to encode.\<newline>'' @
     ''     * @return $signer The signer of the '' @ typeName @ '' data.''\<close>

definition getSolidity_signerGetter :: "Config \<Rightarrow> string \<Rightarrow> string \<Rightarrow> string \<Rightarrow> Getter" where
  \<open>getSolidity_signerGetter config typeName digestGetterName dataFieldName =
     (let signerDocumentation = getSolidity_signerDocumentation typeName;
          signerImplementation =
            getSolidity_signerImplementation config typeName digestGetterName dataFieldName
      in (\<lparr>path = ''/signer-getters/'' @ getSignerGetterName config typeName @ ''.md''\<rparr>,
          ''\<newline>'' @
          ''    /**'' @ signerDocumentation @ ''\<newline>'' @
          ''     */'' @ signerImplementation))\<close>

text \<open>
  The body of \<^verbatim>\<open>Object.keys(config.types).forEach(typeName => ...)\<close>, on the five arrays
  and the allocation counter. \<^verbatim>\<open>getPacketHashGetters\<close> is given the array
  \<^verbatim>\<open>packetHashGetters\<close> itself and returns it, so
  \<^verbatim>\<open>packetHashGetters.push(...getPacketHashGetters(..., packetHashGetters))\<close> appends the
  whole array, new elements included, to itself.
\<close>

definition getSolidity_forEach ::
  "Collaborators \<Rightarrow> Config \<Rightarrow> (string \<Rightarrow> string) \<Rightarrow> string list \<Rightarrow> string list \<Rightarrow>
   string \<Rightarrow> Generation \<times> nat \<Rightarrow> error + Generation \<times> nat" where
  \<open>getSolidity_forEach ext config encodeType typeKeys signerKeys typeName st =
     (case st of (s, ref) \<Rightarrow>
       (case map_of (types config) typeName of
          None \<Rightarrow> Inr (s, ref)
        | Some flds \<Rightarrow>
          (let s1 = s\<lparr>typeHashGetters :=
                      typeHashGetters s @ [(ref, \<lparr>path = ''/base-types/'' @ typeName @ ''.md''\<rparr>)]\<rparr>;
               pushed = getPacketHashGetters2 ext config typeName flds (packetHashGetters s1, Suc ref);
               s2 = s1\<lparr>packetHashGetters := fst pushed @ fst pushed\<rparr>;
               s3 = s2\<lparr>results := results s2 @
                      [\<lparr>struct = getSolidity_struct typeName flds,
                        typeHash = getSolidity_typeHash encodeType typeName flds\<rparr>]\<rparr>;
               st4 = (if typeName \<in> set typeKeys
                      then (s3\<lparr>digestGetters := digestGetters s3 @
                                 [(snd pushed, getSolidity_digestGetter config typeName)]\<rparr>,
                            Suc (snd pushed))
                      else (s3, snd pushed))
           in case find (\<lambda>field. name field = ''signature'') flds of
                None \<Rightarrow> Inr st4
              | Some _ \<Rightarrow>
                 (let dataFieldName =
                        map_option name (find (\<lambda>field. name field \<noteq> ''signature'') flds)
                  in case getDigestGetterName_cast config dataFieldName of
                       Inl e \<Rightarrow> Inl e
                     | Inr digestGetterName \<Rightarrow>
                         (if typeName \<in> set signerKeys
                          then Inr ((fst st4)\<lparr>signerGetters := signerGetters (fst st4) @
                                      [(snd st4,
                                        getSolidity_signerGetter config typeName digestGetterName
                                          (templateText dataFieldName))]\<rparr>,
                                    Suc (snd st4))
                          else Inr st4)))))\<close>

definition emptyGeneration :: Generation where
  "emptyGeneration =
     \<lparr>results = [], typeHashGetters = [], packetHashGetters = [], digestGetters = [],
      signerGetters = []\<rparr>"

definition getSolidity :: "Collaborators \<Rightarrow> Config \<Rightarrow> error + Generation" where
  \<open>getSolidity ext config =
     (let keys = map fst (types config);
          typeKeys = filter (\<lambda>key. (''Live'' @ key) \<in> set keys) keys;
          signerKeys = filter (\<lambda>key. replace key ''Live'' [] \<in> set keys) keys
      in case TypedDataEncoder ext (types config) of
           Inl message \<Rightarrow> Inl (EncoderError message)
         | Inr encodeType \<Rightarrow>
            (case forEach (getSolidity_forEach ext config encodeType typeKeys signerKeys) keys
                    (emptyGeneration, 0) of
               Inl e \<Rightarrow> Inl e
             | Inr (s, ref) \<Rightarrow>
                 Inr \<lparr>results = results s,
                      typeHashGetters = newSet (typeHashGetters s),
                      packetHashGetters = newSet (packetHashGetters s),
                      digestGetters = newSet (digestGetters s),
                      signerGetters = newSet (signerGetters s)\<rparr>))\<close>

section \<open>Assembly (second variant): \<open>generate\<close>\<close>

text \<open>
  \<open>constantsConfig\<close> is \<^verbatim>\<open>constants.config\<close>, the baseline configuration, declared outside
  \<^verbatim>\<open>sol.ts\<close>. The result is the pair of \<^verbatim>\<open>lines\<close> and \<^verbatim>\<open>documentation\<close>.
\<close>

definition generate2 ::
  "Collaborators \<Rightarrow> Config \<Rightarrow> Config \<Rightarrow> error + string \<times> Documentation list" where
  \<open>generate2 ext constantsConfig config =
     (case getSolidity ext (constantsConfig\<lparr>contract := contract config\<rparr>) of
        Inl e \<Rightarrow> Inl e
      | Inr eip712 \<Rightarrow>
     (case getSolidity ext config of
        Inl e \<Rightarrow> Inl e
      | Inr own \<Rightarrow>
        (let combinedSetup = results eip712 @ results own;
             combinedTypeHashGetters =
               map snd (typeHashGetters eip712) @ map snd (typeHashGetters own);
             combinedPacketHashGetters =
               map snd (packetHashGetters eip712) @ map snd (packetHashGetters own);
             structs = map struct combinedSetup;
             typeHashes = map typeHash combinedSetup;
             lines =
               [''// SPDX-License-Identifier: '' @ license (contract config) @ ''\<newline>'',
                ''pragma solidity '' @ solidity (contract config) @ '';\<newline>'',
                ''import {ECDSA} from '' @ QUOTE @ ''solady/src/utils/ECDSA.sol'' @ QUOTE @ '';\<newline>'',
                ''/**\<newline>'' @
                '' * @title Plug:'' @ Contract.name (contract config) @ ''\<newline>'' @
                '' * @notice The base EIP-712 types that power a modern intent framework.\<newline>'' @
                '' * @dev This file was auto-generated by @nftchance/plug-types/cli \<newline>'' @
                '' *      and should not be edited directly otherwise the alchemy \<newline>'' @
                '' *      will fail and you will have to pay with a piece of your soul.\<newline>'' @
                '' *      (https://github.com/nftchance/plug-types)\<newline>'' @
                '' * @dev This interface and the consuming abstract are auto-generated by\<newline>'' @
                '' *      types declared in the framework configuration at (./config.ts). \<newline>'' @
                '' *      As an extensible base, all projects build on top of Pins \<newline>'' @
                '' *      and Plugs.\<newline>'' @
                authors (contract config) @ ''\<newline>'' @
                '' */'',
                ''library '' @ Contract.name (contract config) @ ''Lib {'',
                join ''\<newline>\<newline>'' structs,
                ''}\<newline>'' @
                ''\<newline>'' @
                ''/**\<newline>'' @
                '' * @title Plug:'' @ Contract.name (contract config) @ '' \<newline>'' @
                '' * @dev This file was auto-generated by @nftchance/plug-types/cli.\<newline>'' @
                '' *      (https://github.com/nftchance/plug-types)\<newline>'' @
                '' * @dev This abstract contract is auto-generated and should not be edited directly\<newline>'' @
                '' *      however it should be directly inherited from in the consuming protocol\<newline>'' @
                '' *      to power the processing of generalized plugs.\<newline>'' @
                authors (contract config) @ ''\<newline>'' @
                '' */\<newline>'' @
                ''abstract contract '' @ Contract.name (contract config) @ '' {\<newline>'' @
                ''    /// @notice Use the ECDSA library for signature verification.\<newline>'' @
                ''    using ECDSA for bytes32;\<newline>'' @
                ''\<newline>'' @
                ''    /// @notice The hash of the domain separator used in the EIP712 domain hash.\<newline>'' @
                ''    bytes32 public domainHash;\<newline>'',
                join ''\<newline>\<newline>'' typeHashes,
                ''\<newline>'' @
                ''    /**\<newline>'' @
                ''     * @notice Initialize the contract with the name and version of the protocol.\<newline>'' @
                ''     * @param $name The name of the protocol.\<newline>'' @
                ''     * @param $version The version of the protocol.\<newline>'' @
                ''     * @dev The chainId is pulled from the block and the verifying contract is set to the\<newline>'' @
                ''     *      address of the contract.\<newline>'' @
                ''     */\<newline>'' @
                ''    function _initializeSocket(\<newline>'' @
                TAB @ ''string memory $name, \<newline>'' @
                TAB @ ''string memory $version\<newline>'' @
                ''    ) internal virtual {\<newline>'' @
                ''        /// @dev Sets the domain hash for the contract.\<newline>'' @
                ''        domainHash = '' @ getPacketHashGetterName config ''EIP712Domain'' @ ''('' @ Contract.name (contract config) @ ''Lib.EIP712Domain({\<newline>'' @
                ''            name: $name,\<newline>'' @
                ''            version: $version,\<newline>'' @
                ''            chainId: block.chainid,\<newline>'' @
                ''            verifyingContract: address(this)\<newline>'' @
                ''        }));\<newline>'' @
                ''    }\<newline>'',
                join ''\<newline>\<newline>'' (map snd combinedPacketHashGetters),
                join ''\<newline>'' (map (snd \<circ> snd) (digestGetters own)),
                join ''\<newline>'' (map (snd \<circ> snd) (signerGetters own)),
                ''}'']
         in Inr (join ''\<newline>'' lines,
                 combinedTypeHashGetters @ map fst combinedPacketHashGetters @
                 map (fst \<circ> snd) (digestGetters own) @ map (fst \<circ> snd) (signerGetters own)))))\<close>

section \<open>Example configurations\<close>

definition exampleContract :: Contract where
  "exampleContract =
     \<lparr>Contract.name = ''Types'', license = ''MIT'', solidity = ''^0.8.19'',
      authors = '' * @author plug''\<rparr>"

definition qualifiedMode :: Dangerous where
  "qualifiedMode =
     \<lparr>useOverloads = False, packetHashName = (\<lambda>typeName. typeName),
      packetHashNameUndefined = None\<rparr>"

definition overloadedMode :: Dangerous where
  "overloadedMode =
     \<lparr>useOverloads = True, packetHashName = (\<lambda>typeName. typeName),
      packetHashNameUndefined = None\<rparr>"

text \<open>
  Stand-ins for the libraries: an encoder that accepts every schema, a basic-type test that accepts the listed type names (abitype's
  \<^verbatim>\<open>TypedDataType\<close> is the union of \<^verbatim>\<open>address\<close>, \<^verbatim>\<open>bool\<close>, \<^verbatim>\<open>bytes<N>\<close>, \<^verbatim>\<open>string\<close>,
  \<^verbatim>\<open><u>int<N>\<close> and of the arrays of those, so \<^verbatim>\<open>uint256[]\<close> is among them), and a
  template tag that only interpolates.
\<close>

fun interpolate :: "string list \<Rightarrow> string list \<Rightarrow> string" where
  "interpolate (p # ps) (v # vs) = p @ v @ interpolate ps vs"
| "interpolate ps vs = concat ps"

definition acceptingLibraries :: Collaborators where
  "acceptingLibraries =
     \<lparr>TypedDataEncoder = (\<lambda>types. Inr (\<lambda>typeName. typeName @ ''(...)'')),
      safeParse = (\<lambda>t. t \<in> set [''address'', ''bool'', ''bytes32'', ''uint256'', ''uint256[]'']),
      keccak256 = (\<lambda>text. ''0x00''),
      dedent = interpolate\<rparr>"

text \<open>
  A stand-in with the reference check of the constructor of \<^verbatim>\<open>TypedDataEncoder\<close> of ethers,
  and with nothing else of it. The base type of a field is its type up to the first
  \<^verbatim>\<open>[\<close>; the base types of the encoder are \<^verbatim>\<open>address\<close>, \<^verbatim>\<open>bool\<close>, \<^verbatim>\<open>bytes\<close>, \<^verbatim>\<open>string\<close>,
  \<^verbatim>\<open>bytes<N>\<close>, \<^verbatim>\<open>int<N>\<close> and \<^verbatim>\<open>uint<N>\<close>. The first field, in the order of declaration,
  whose base type is neither one of those nor a declared type name makes the constructor
  throw \<^verbatim>\<open>unknown type\<close> with the base type between double quotes.
\<close>

definition DQUOTE :: string where
  "DQUOTE = [CHR 0x22]"

definition baseTypeOf :: "string \<Rightarrow> string" where
  "baseTypeOf t = takeWhile (\<lambda>c. c \<noteq> CHR ''['') t"

definition numbered :: "string \<Rightarrow> string \<Rightarrow> bool" where
  "numbered word t \<longleftrightarrow>
     prefix word t \<and> drop (length word) t \<noteq> [] \<and> list_all isDigit (drop (length word) t)"

definition isBaseType :: "string \<Rightarrow> bool" where
  "isBaseType t \<longleftrightarrow>
     t \<in> set [''address'', ''bool'', ''bytes'', ''string''] \<or>
     numbered ''bytes'' t \<or> numbered ''int'' t \<or> numbered ''uint'' t"

definition referenceCheckingEncoder :: "TypedData \<Rightarrow> string + (string \<Rightarrow> string)" where
  "referenceCheckingEncoder ts =
     (case find (\<lambda>t. \<not> isBaseType t \<and> t \<notin> set (map fst ts))
             (map (\<lambda>field. baseTypeOf (type field)) (concat (map snd ts))) of
        Some t \<Rightarrow> Inl (''unknown type '' @ DQUOTE @ t @ DQUOTE)
      | None \<Rightarrow> Inr (\<lambda>typeName. typeName @ ''(...)''))"

definition checkingLibraries :: Collaborators where
  "checkingLibraries = acceptingLibraries\<lparr>TypedDataEncoder := referenceCheckingEncoder\<rparr>"

text \<open>The schema of Person and Mail.\<close>

definition mailConfig :: Config where
  "mailConfig =
     \<lparr>contract = exampleContract,
      types =
        [(''Person'', [\<lparr>name = ''name'', type = ''string''\<rparr>, \<lparr>name = ''wallet'', type = ''address''\<rparr>]),
         (''Mail'', [\<lparr>name = ''from'', type = ''Person''\<rparr>, \<lparr>name = ''to'', type = ''Person''\<rparr>,
                   \<lparr>name = ''contents'', type = ''string''\<rparr>])],
      dangerous = qualifiedMode\<rparr>"

text \<open>Two types, Box and Mail, each with a field of type \<^verbatim>\<open>Person[]\<close>.\<close>

definition sharedArrayConfig :: Config where
  "sharedArrayConfig =
     \<lparr>contract = exampleContract,
      types =
        [(''Person'', [\<lparr>name = ''name'', type = ''string''\<rparr>, \<lparr>name = ''wallet'', type = ''address''\<rparr>]),
         (''Box'', [\<lparr>name = ''owners'', type = ''Person[]''\<rparr>]),
         (''Mail'', [\<lparr>name = ''signers'', type = ''Person[]''\<rparr>, \<lparr>name = ''box'', type = ''Box''\<rparr>])],
      dangerous = qualifiedMode\<rparr>"

text \<open>A field of the undeclared type Ghost.\<close>

definition danglingConfig :: Config where
  "danglingConfig =
     \<lparr>contract = exampleContract,
      types = [(''Mail'', [\<lparr>name = ''from'', type = ''Ghost''\<rparr>])],
      dangerous = qualifiedMode\<rparr>"

text \<open>A baseline and an extension that both declare \<^verbatim>\<open>EIP712Domain\<close>.\<close>

definition domainFields :: "TypedDataParameter list" where
  "domainFields =
     [\<lparr>name = ''name'', type = ''string''\<rparr>, \<lparr>name = ''version'', type = ''string''\<rparr>,
      \<lparr>name = ''chainId'', type = ''uint256''\<rparr>,
      \<lparr>name = ''verifyingContract'', type = ''address''\<rparr>]"

definition baselineConfig :: Config where
  "baselineConfig =
     \<lparr>contract = exampleContract,
      types = [(''EIP712Domain'', domainFields)],
      dangerous = qualifiedMode\<rparr>"

definition collidingConfig :: Config where
  "collidingConfig =
     \<lparr>contract = exampleContract,
      types = [(''EIP712Domain'', [\<lparr>name = ''name'', type = ''string''\<rparr>])],
      dangerous = qualifiedMode\<rparr>"

text \<open>
  Pin has a namesake LivePin that neither carries a Pin nor a signature; Envelope has a
  \<^verbatim>\<open>signature\<close> field next to three other fields.
\<close>

definition envelopeFields :: "TypedDataParameter list" where
  "envelopeFields =
     [\<lparr>name = ''pin'', type = ''Pin''\<rparr>, \<lparr>name = ''live'', type = ''LivePin''\<rparr>,
      \<lparr>name = ''extra'', type = ''uint256''\<rparr>, \<lparr>name = ''signature'', type = ''bytes''\<rparr>]"

definition envelopeConfig :: Config where
  "envelopeConfig =
     \<lparr>contract = exampleContract,
      types =
        [(''Pin'', [\<lparr>name = ''id'', type = ''uint256''\<rparr>]),
         (''LivePin'', [\<lparr>name = ''memo'', type = ''string''\<rparr>]),
         (''Envelope'', envelopeFields)],
      dangerous = qualifiedMode\<rparr>"

text \<open>Two type names that differ in letter case only, and a type with an array of a
  primitive type.\<close>

definition tokenConfig :: Config where
  "tokenConfig =
     \<lparr>contract = exampleContract,
      types =
        [(''NFTMeta'', [\<lparr>name = ''id'', type = ''uint256''\<rparr>]),
         (''NftMeta'', [\<lparr>name = ''id'', type = ''uint256''\<rparr>]),
         (''Token'', [\<lparr>name = ''current'', type = ''NFTMeta''\<rparr>, \<lparr>name = ''previous'', type = ''NftMeta''\<rparr>])],
      dangerous = qualifiedMode\<rparr>"

definition ledgerConfig :: Config where
  "ledgerConfig =
     \<lparr>contract = exampleContract,
      types = [(''Ledger'', [\<lparr>name = ''values'', type = ''uint256[]''\<rparr>])],
      dangerous = qualifiedMode\<rparr>"

section \<open>Notions used to state the properties\<close>

text \<open>
  A string of ASCII characters. \<^verbatim>\<open>toUpperCase\<close> of JavaScript also changes letters beyond
  ASCII, which \<open>toUpperCase\<close> above leaves alone, so what is proved of the upper-snake-case
  transform is proved for ASCII names, as the identifiers of Solidity are.
\<close>

definition isAscii :: "string \<Rightarrow> bool" where
  "isAscii s = list_all (\<lambda>c. (of_char c :: nat) < 128) s"

text \<open>
  A field that refers to an undeclared type: its type is neither primitive, by the given
  test, nor an array, nor a declared type name. An encoder constructor rejects undeclared
  references when it throws for every schema that has such a field.
\<close>

definition undeclaredField :: "(string \<Rightarrow> bool) \<Rightarrow> TypedData \<Rightarrow> TypedDataParameter \<Rightarrow> bool" where
  "undeclaredField primitive ts field \<longleftrightarrow>
     \<not> primitive (type field) \<and> CHR ''['' \<notin> set (type field) \<and> type field \<notin> set (map fst ts)"

definition rejectsUndeclared ::
  "(string \<Rightarrow> bool) \<Rightarrow> (TypedData \<Rightarrow> string + (string \<Rightarrow> string)) \<Rightarrow> bool" where
  "rejectsUndeclared primitive encoder \<longleftrightarrow>
     (\<forall>ts. (\<exists>e\<in>set ts. \<exists>field\<in>set (snd e). undeclaredField primitive ts field) \<longrightarrow>
           isl (encoder ts))"

text \<open>A type name with its letters in upper case and its underscores removed.\<close>

definition ignoringCaseAndUnderscores :: "string \<Rightarrow> string" where
  "ignoringCaseAndUnderscores s = toUpperCase (filter (\<lambda>c. c \<noteq> CHR ''_'') s)"

text \<open>
  What one pass of the loop of \<open>getSolidity\<close> allocates for a declared type: the packet
  hash getters, in the order they are pushed, and the signer getter, if the type has a
  \<^verbatim>\<open>signature\<close> field (its computation is what may throw).
\<close>

definition createdGetters2 ::
  "Collaborators \<Rightarrow> Config \<Rightarrow> string \<times> TypedDataParameter list \<Rightarrow> Getter list" where
  "createdGetters2 ext config entry =
     getPacketHashGetters2_first ext config (fst entry) (snd entry) #
     map (\<lambda>field. getArrayPacketHashGetter2 config (type field))
       (filter (\<lambda>field. str_includes (type field) ''[]'') (snd entry))"

text \<open>The same for one pass of the loop of \<open>generateSolidity\<close>.\<close>

definition createdGetters1 ::
  "Collaborators \<Rightarrow> Config \<Rightarrow> string \<times> TypedDataParameter list \<Rightarrow> Getter list" where
  "createdGetters1 ext config entry =
     getPacketHashGetters1_first ext config (fst entry) (snd entry) #
     map (\<lambda>field. getArrayPacketHashGetter1 ext config (type field))
       (filter (\<lambda>field. str_includes (type field) ''[]'') (snd entry))"

text \<open>
  Every pass pushes the getter of the type and then one array getter for every field
  whose type contains \<^verbatim>\<open>[]\<close>, so this is the number of packet hash getters made for the
  types declared before the \<open>i\<close>-th: the position of the getter of the \<open>i\<close>-th type.
\<close>

definition gettersBefore :: "Config \<Rightarrow> nat \<Rightarrow> nat" where
  "gettersBefore config i =
     i + length (filter (\<lambda>field. str_includes (type field) ''[]'')
                   (concat (map snd (take i (types config)))))"

definition signerEntry ::
  "Config \<Rightarrow> string \<times> TypedDataParameter list \<Rightarrow> error + Getter option" where
  "signerEntry config entry =
     (case find (\<lambda>field. name field = ''signature'') (snd entry) of
        None \<Rightarrow> Inr None
      | Some _ \<Rightarrow>
          (let dataFieldName =
                 map_option name (find (\<lambda>field. name field \<noteq> ''signature'') (snd entry))
           in case getDigestGetterName_cast config dataFieldName of
                Inl e \<Rightarrow> Inl e
              | Inr digestGetterName \<Rightarrow>
                  Inr (Some (getSolidity_signerGetter config (fst entry) digestGetterName
                               (templateText dataFieldName)))))"

text \<open>The type names that get a digest getter and those that may get a signer getter.\<close>

definition typeKeys :: "Config \<Rightarrow> string list" where
  "typeKeys config =
     filter (\<lambda>key. (''Live'' @ key) \<in> set (map fst (types config))) (map fst (types config))"

definition signerKeys :: "Config \<Rightarrow> string list" where
  "signerKeys config =
     filter (\<lambda>key. replace key ''Live'' [] \<in> set (map fst (types config)))
       (map fst (types config))"

definition signerGettersOf :: "Config \<Rightarrow> string \<times> TypedDataParameter list \<Rightarrow> Getter list" where
  "signerGettersOf config entry =
     (case signerEntry config entry of
        Inr (Some getter) \<Rightarrow> if fst entry \<in> set (signerKeys config) then [getter] else []
      | _ \<Rightarrow> [])"

definition typeSetupOf :: "(string \<Rightarrow> string) \<Rightarrow> string \<times> TypedDataParameter list \<Rightarrow> TypeSetup" where
  "typeSetupOf encodeType entry =
     \<lparr>struct = getSolidity_struct (fst entry) (snd entry),
      typeHash = getSolidity_typeHash encodeType (fst entry) (snd entry)\<rparr>"

definition basePage :: "string \<times> TypedDataParameter list \<Rightarrow> Documentation" where
  "basePage entry = \<lparr>path = ''/base-types/'' @ fst entry @ ''.md''\<rparr>"

text \<open>Every object of the four arrays was allocated before \<open>ref\<close>.\<close>

definition allocatedBelow :: "Generation \<times> nat \<Rightarrow> bool" where
  "allocatedBelow st =
     (case st of (s, ref) \<Rightarrow>
        (\<forall>x\<in>set (typeHashGetters s). fst x < ref) \<and>
        (\<forall>x\<in>set (packetHashGetters s). fst x < ref) \<and>
        (\<forall>x\<in>set (digestGetters s). fst x < ref) \<and>
        (\<forall>x\<in>set (signerGetters s). fst x < ref))"

section \<open>The emitted array getter as a program\<close>
























section \<open>Properties of the string operations\<close>

lemma str_includes_append: "str_includes (xs @ sub) sub"
  by (induction xs) (auto, cases sub, auto)

lemma dropArrayMarker_append [simp]: "dropArrayMarker (element @ ''[]'') = element"
  by (simp add: dropArrayMarker_def)

lemma upperChar_code: "of_char (upperChar c) = (if isLower c then (of_char c :: nat) - 32 else of_char c)"
  by (cases c) (auto simp: isLower_def upperChar_def)

lemma upperChar_underscore: "upperChar c = CHR ''_'' \<longleftrightarrow> c = CHR ''_''"
  by (cases c) (auto simp: isLower_def upperChar_def)

lemma filter_replaceLowerUpper:
  "filter (\<lambda>c. c \<noteq> CHR ''_'') (replaceLowerUpper s) = filter (\<lambda>c. c \<noteq> CHR ''_'') s"
  by (induction s rule: replaceLowerUpper.induct) auto

lemma filter_replaceUpperUpperLower:
  "filter (\<lambda>c. c \<noteq> CHR ''_'') (replaceUpperUpperLower s) = filter (\<lambda>c. c \<noteq> CHR ''_'') s"
  by (induction s rule: replaceUpperUpperLower.induct) auto

lemma filter_replaceDigitUpper:
  "filter (\<lambda>c. c \<noteq> CHR ''_'') (replaceDigitUpper s) = filter (\<lambda>c. c \<noteq> CHR ''_'') s"
  by (induction s rule: replaceDigitUpper.induct) auto

lemma filter_toUpperCase:
  "filter (\<lambda>c. c \<noteq> CHR ''_'') (toUpperCase s) = toUpperCase (filter (\<lambda>c. c \<noteq> CHR ''_'') s)"
  by (induction s) (auto simp: toUpperCase_def upperChar_underscore)

lemma upperSnake_ignoring:
  "filter (\<lambda>c. c \<noteq> CHR ''_'') (upperSnake s) = ignoringCaseAndUnderscores s"
  by (simp add: upperSnake_def ignoringCaseAndUnderscores_def filter_toUpperCase
      filter_replaceDigitUpper filter_replaceUpperUpperLower filter_replaceLowerUpper)

lemmas evalNames =
  typeHashName_def upperSnake_def toUpperCase_def upperChar_def isLower_def isUpper_def
  isDigit_def ignoringCaseAndUnderscores_def

section \<open>Name resolution\<close>

text \<open>
  C7, as stated: for every type name, an array type gets the array names and a non-array
  type the plain names. The code looks for the marker \<open>[]\<close> only: the fixed-size array
  \<open>Person[3]\<close> gets the names of a non-array type, and for \<open>Person[][3]\<close> the element
  name is cut in the middle.
\<close>

theorem getPacketHashGetterName_fixed_size_array:
  "getPacketHashGetterName mailConfig ''Person[3]'' = ''getPerson[3]Hash''
   \<and> getPacketHashGetterName (mailConfig\<lparr>dangerous := overloadedMode\<rparr>) ''Person[3]'' = ''getHash''
   \<and> getPacketHashGetterName mailConfig ''Person[][3]'' = ''getPerson[][ArrayHash''"
  by (simp add: getPacketHashGetterName_def dropArrayMarker_def mailConfig_def qualifiedMode_def
      overloadedMode_def)

text \<open>
  C7, amended: the packet-hash getter name follows the naming mode and the marker \<open>[]\<close>.
  A type name that contains \<open>[]\<close> gets, with overloads, the shared name \<open>getArrayHash\<close>
  and otherwise \<open>get\<close>, the name without its last two characters as \<open>packetHashName\<close> of
  the configuration renders it, \<open>ArrayHash\<close>; for \<open>element[]\<close> that name is the element
  type name. A type name that does not contain \<open>[]\<close> (a plain name, and also a fixed-size
  array) gets, with overloads, \<open>getHash\<close> and otherwise \<open>get\<close>, the rendered type name,
  \<open>Hash\<close>.
\<close>

theorem getPacketHashGetterName_by_array_marker:
  "(str_includes typeName ''[]'' \<longrightarrow>
      getPacketHashGetterName config typeName =
        (if useOverloads (dangerous config) then ''getArrayHash''
         else ''get'' @ packetHashName (dangerous config) (take (length typeName - 2) typeName) @
              ''ArrayHash''))
   \<and> (\<not> str_includes typeName ''[]'' \<longrightarrow>
        getPacketHashGetterName config typeName =
          (if useOverloads (dangerous config) then ''getHash''
           else ''get'' @ packetHashName (dangerous config) typeName @ ''Hash''))
   \<and> getPacketHashGetterName config (element @ ''[]'') =
        (if useOverloads (dangerous config) then ''getArrayHash''
         else ''get'' @ packetHashName (dangerous config) element @ ''ArrayHash'')"
  by (simp add: getPacketHashGetterName_def str_includes_append dropArrayMarker_def)

theorem getPacketHashGetterName_by_array_marker_witness:
  "str_includes ''Person[][3]'' ''[]''
   \<and> getPacketHashGetterName mailConfig ''Person[][3]'' = ''getPerson[][ArrayHash''
   \<and> \<not> str_includes ''Person[3]'' ''[]''
   \<and> getPacketHashGetterName mailConfig ''Person[3]'' = ''getPerson[3]Hash''
   \<and> getPacketHashGetterName mailConfig ''Person[]'' = ''getPersonArrayHash''
   \<and> getPacketHashGetterName (mailConfig\<lparr>dangerous := overloadedMode\<rparr>) ''Person[]'' = ''getArrayHash''
   \<and> \<not> str_includes ''Person'' ''[]''
   \<and> getPacketHashGetterName mailConfig ''Person'' = ''getPersonHash''
   \<and> getPacketHashGetterName (mailConfig\<lparr>dangerous := overloadedMode\<rparr>) ''Person'' = ''getHash''"
  using getPacketHashGetterName_by_array_marker [of "''Person[][3]''" mailConfig "''Person''"]
        getPacketHashGetterName_by_array_marker [of "''Person[3]''" mailConfig "''Person''"]
        getPacketHashGetterName_by_array_marker [of "''Person''" mailConfig "''Person''"]
        getPacketHashGetterName_by_array_marker
          [of "''Person''" "mailConfig\<lparr>dangerous := overloadedMode\<rparr>" "''Person''"]
  by (simp add: mailConfig_def qualifiedMode_def overloadedMode_def)

text \<open>
  C6, as stated: the type-hash constant name is injective over the declared type names.
  It is not: a schema may declare \<open>NFTMeta\<close> and \<open>NftMeta\<close>, different names with the same
  constant.
\<close>

theorem typeHashName_collision:
  "''NFTMeta'' \<in> set (map fst (types tokenConfig))
   \<and> ''NftMeta'' \<in> set (map fst (types tokenConfig))
   \<and> distinct (map fst (types tokenConfig))
   \<and> ''NFTMeta'' \<noteq> ''NftMeta''
   \<and> typeHashName ''NFTMeta'' = ''NFT_META_TYPEHASH''
   \<and> typeHashName ''NftMeta'' = ''NFT_META_TYPEHASH''"
  by (simp add: evalNames tokenConfig_def)

text \<open>
  C6, amended: for type names of ASCII characters, the constant name is the
  upper-snake-case transform of the type name followed by \<open>_TYPEHASH\<close>, and two type names
  that differ by more than letter case and underscores have different constant names.
\<close>

theorem typeHashName_injective_up_to_case:
  assumes "isAscii a" and "isAscii b"
  shows "typeHashName a = upperSnake a @ ''_TYPEHASH''
       \<and> (ignoringCaseAndUnderscores a \<noteq> ignoringCaseAndUnderscores b \<longrightarrow>
            typeHashName a \<noteq> typeHashName b)"
proof -
  have "ignoringCaseAndUnderscores a = ignoringCaseAndUnderscores b"
    if "typeHashName a = typeHashName b"
  proof -
    from that have "upperSnake a = upperSnake b" by (simp add: typeHashName_def)
    then show ?thesis by (metis upperSnake_ignoring)
  qed
  then show ?thesis by (auto simp: typeHashName_def)
qed

theorem typeHashName_injective_up_to_case_witness:
  "isAscii ''Person'' \<and> isAscii ''Mail''
   \<and> typeHashName ''Person'' = ''PERSON_TYPEHASH''
   \<and> ignoringCaseAndUnderscores ''Person'' \<noteq> ignoringCaseAndUnderscores ''Mail''
   \<and> typeHashName ''Person'' \<noteq> typeHashName ''Mail''"
proof -
  have a: "isAscii ''Person''" "isAscii ''Mail''" by (simp_all add: isAscii_def)
  from typeHashName_injective_up_to_case [OF a] a show ?thesis
    by (simp add: evalNames)
qed

section \<open>Field encoding\<close>

lemma getEncodedValueFor_basic:
  "type field \<noteq> ''bytes'' \<Longrightarrow> type field \<noteq> ''string'' \<Longrightarrow> safeParse ext (type field) \<Longrightarrow>
   getEncodedValueFor ext config field = ''$input.'' @ name field"
  by (simp add: getEncodedValueFor_def)

section \<open>Sets of objects and the loop of \<open>getSolidity\<close>\<close>

lemma Set_add_old: "fst x \<in> fst ` set s \<Longrightarrow> Set_add s x = s"
  by (simp add: Set_add_def)

lemma Set_add_fresh: "fst x \<notin> fst ` set s \<Longrightarrow> Set_add s x = s @ [x]"
  by (simp add: Set_add_def)

lemma foldl_Set_add_old: "fst ` set ys \<subseteq> fst ` set s \<Longrightarrow> foldl Set_add s ys = s"
  by (induction ys) (auto simp: Set_add_def)

lemma refs_foldl_Set_add: "fst ` set (foldl Set_add s ys) = fst ` set s \<union> fst ` set ys"
  by (induction ys arbitrary: s) (auto simp: Set_add_def)

lemma foldl_Set_add_fresh:
  "distinct (map fst ys) \<Longrightarrow> fst ` set ys \<inter> fst ` set s = {} \<Longrightarrow> foldl Set_add s ys = s @ ys"
proof (induction ys arbitrary: s)
  case Nil
  then show ?case by simp
next
  case (Cons y ys)
  have "Set_add s y = s @ [y]" using Cons.prems by (simp add: Set_add_def)
  moreover have "fst ` set ys \<inter> fst ` set (s @ [y]) = {}" using Cons.prems by auto
  ultimately show ?case using Cons.IH [of "s @ [y]"] Cons.prems by simp
qed

lemma refs_newSet: "fst ` set (newSet xs) = fst ` set xs"
  by (simp add: newSet_def refs_foldl_Set_add)

lemma newSet_append: "newSet (xs @ ys) = foldl Set_add (newSet xs) ys"
  by (simp add: newSet_def)

lemma newSet_Nil [simp]: "newSet [] = []"
  by (simp add: newSet_def)

lemma newSet_snoc_fresh:
  "\<forall>x\<in>set xs. fst x < r \<Longrightarrow> newSet (xs @ [(r, v)]) = newSet xs @ [(r, v)]"
proof -
  assume a: "\<forall>x\<in>set xs. fst x < r"
  have "r \<notin> fst ` set (newSet xs)" using a by (auto simp: refs_newSet)
  then show ?thesis by (simp add: newSet_append Set_add_def)
qed

lemma newSet_doubled:
  assumes "\<forall>x\<in>set P. fst x < r"
  shows "newSet ((P @ enumerate r C) @ (P @ enumerate r C)) = newSet P @ enumerate r C"
proof -
  let ?A = "P @ enumerate r C"
  have d: "distinct (map fst (enumerate r C))" by (simp add: map_fst_enumerate)
  have "fst ` set (enumerate r C) \<inter> fst ` set (newSet P) = {}"
    using assms by (auto simp: refs_newSet in_set_enumerate_eq)
  with d have 1: "newSet ?A = newSet P @ enumerate r C"
    by (simp add: newSet_append foldl_Set_add_fresh)
  have "newSet (?A @ ?A) = foldl Set_add (newSet ?A) ?A" by (rule newSet_append)
  also have "\<dots> = newSet ?A" by (rule foldl_Set_add_old) (simp add: refs_newSet)
  finally show ?thesis using 1 by simp
qed

lemma pushArrayGetters2_eq:
  "pushArrayGetters2 config flds (gs, r) =
     (gs @ enumerate r (map (\<lambda>field. getArrayPacketHashGetter2 config (type field))
                         (filter (\<lambda>field. str_includes (type field) ''[]'') flds)),
      r + length (filter (\<lambda>field. str_includes (type field) ''[]'') flds))"
  by (induction flds arbitrary: gs r) simp_all

lemma getPacketHashGetters2_eq:
  "getPacketHashGetters2 ext config typeName flds (gs, r) =
     (gs @ enumerate r (createdGetters2 ext config (typeName, flds)),
      r + length (createdGetters2 ext config (typeName, flds)))"
  by (simp add: getPacketHashGetters2_def pushArrayGetters2_eq createdGetters2_def)


lemma getSolidity_forEach_eq:
  assumes "map_of (types config) k = Some flds"
  shows "getSolidity_forEach ext config enc tk sk k (s, ref) =
    (case signerEntry config (k, flds) of
       Inl e \<Rightarrow> Inl e
     | Inr sg \<Rightarrow>
        (let C = createdGetters2 ext config (k, flds);
             P = packetHashGetters s @ enumerate (Suc ref) C;
             r2 = Suc ref + length C;
             D = (if k \<in> set tk then [(r2, getSolidity_digestGetter config k)] else []);
             r3 = r2 + length D;
             S = (case sg of Some g \<Rightarrow> if k \<in> set sk then [(r3, g)] else [] | None \<Rightarrow> [])
         in Inr (\<lparr>results = results s @ [typeSetupOf enc (k, flds)],
                  typeHashGetters = typeHashGetters s @ [(ref, basePage (k, flds))],
                  packetHashGetters = P @ P,
                  digestGetters = digestGetters s @ D,
                  signerGetters = signerGetters s @ S\<rparr>, r3 + length S)))"
  using assms
  by (cases s)
     (auto simp: getSolidity_forEach_def signerEntry_def getPacketHashGetters2_eq Let_def
        typeSetupOf_def basePage_def split: option.splits sum.splits)

lemma signerEntry_Inl:
  "signerEntry config e = Inl err \<longleftrightarrow>
     err = PacketHashNameError \<and> snd e \<noteq> [] \<and> (\<forall>field\<in>set (snd e). name field = ''signature'') \<and>
     \<not> useOverloads (dangerous config) \<and> packetHashNameUndefined (dangerous config) = None"
  by (auto simp: signerEntry_def getDigestGetterName_cast_def Let_def find_None_iff find_Some_iff
      split: option.splits sum.splits if_splits)

lemma forEach_getSolidity_Inl:
  assumes "\<forall>e\<in>set es. map_of (types config) (fst e) = Some (snd e)"
  shows "forEach (getSolidity_forEach ext config enc tk sk) (map fst es) st = Inl err \<longleftrightarrow>
         (\<exists>e\<in>set es. signerEntry config e = Inl err)"
  using assms
proof (induction es arbitrary: st)
  case Nil
  then show ?case by simp
next
  case (Cons e es)
  obtain k flds where e: "e = (k, flds)" by (cases e)
  obtain s ref where st: "st = (s, ref)" by (cases st)
  have look: "map_of (types config) k = Some flds" using Cons.prems e by simp
  have IH: "\<And>st. (forEach (getSolidity_forEach ext config enc tk sk) (map fst es) st = Inl err)
              = (\<exists>e\<in>set es. signerEntry config e = Inl err)"
    using Cons.IH Cons.prems by simp
  show ?case
  proof (cases "signerEntry config (k, flds)")
    case (Inl x)
    then have "x = PacketHashNameError" by (simp add: signerEntry_Inl)
    moreover have "\<And>e'. signerEntry config e' = Inl err \<Longrightarrow> err = PacketHashNameError"
      by (simp add: signerEntry_Inl)
    ultimately show ?thesis
      using Inl by (auto simp: e st getSolidity_forEach_eq [OF look])
  next
    case (Inr sg)
    then show ?thesis
      by (simp add: e st getSolidity_forEach_eq [OF look] Let_def IH)
  qed
qed

lemma forEach_getSolidity_Inr:
  assumes "\<forall>e\<in>set es. map_of (types config) (fst e) = Some (snd e)"
      and "forEach (getSolidity_forEach ext config enc tk (signerKeys config)) (map fst es) (s, ref) = Inr (s', ref')"
      and "allocatedBelow (s, ref)"
  shows "allocatedBelow (s', ref')
       \<and> results s' = results s @ map (typeSetupOf enc) es
       \<and> map snd (newSet (typeHashGetters s')) = map snd (newSet (typeHashGetters s)) @ map basePage es
       \<and> map snd (newSet (packetHashGetters s')) =
           map snd (newSet (packetHashGetters s)) @ concat (map (createdGetters2 ext config) es)
       \<and> map snd (newSet (digestGetters s')) =
           map snd (newSet (digestGetters s)) @
           map (\<lambda>e. getSolidity_digestGetter config (fst e)) (filter (\<lambda>e. fst e \<in> set tk) es)
       \<and> map snd (newSet (signerGetters s')) =
           map snd (newSet (signerGetters s)) @ concat (map (signerGettersOf config) es)"
  using assms
proof (induction es arbitrary: s ref)
  case Nil
  then show ?case by simp
next
  case (Cons e es)
  obtain k flds where e: "e = (k, flds)" by (cases e)
  have look: "map_of (types config) k = Some flds" using Cons.prems(1) e by simp
  let ?step = "getSolidity_forEach ext config enc tk (signerKeys config)"
  obtain s1 r1 where step: "?step k (s, ref) = Inr (s1, r1)"
    and rest: "forEach ?step (map fst es) (s1, r1) = Inr (s', ref')"
    using Cons.prems(2) e by (auto split: sum.splits)
  obtain sg where sg: "signerEntry config (k, flds) = Inr sg"
    using step getSolidity_forEach_eq [OF look, of ext enc tk "signerKeys config" s ref]
    by (auto split: sum.splits)
  let ?C = "createdGetters2 ext config (k, flds)"
  let ?P = "packetHashGetters s @ enumerate (Suc ref) ?C"
  let ?r2 = "Suc ref + length ?C"
  let ?D = "if k \<in> set tk then [(?r2, getSolidity_digestGetter config k)] else []"
  let ?r3 = "?r2 + length ?D"
  let ?S = "case sg of Some g \<Rightarrow> if k \<in> set (signerKeys config) then [(?r3, g)] else [] | None \<Rightarrow> []"
  have "(case signerEntry config (k, flds) of
          Inl e \<Rightarrow> Inl e
        | Inr sg \<Rightarrow>
          (let C = createdGetters2 ext config (k, flds);
               P = packetHashGetters s @ enumerate (Suc ref) C;
               r2 = Suc ref + length C;
               D = (if k \<in> set tk then [(r2, getSolidity_digestGetter config k)] else []);
               r3 = r2 + length D;
               S = (case sg of Some g \<Rightarrow> if k \<in> set (signerKeys config) then [(r3, g)] else []
                    | None \<Rightarrow> [])
           in Inr (\<lparr>results = results s @ [typeSetupOf enc (k, flds)],
                    typeHashGetters = typeHashGetters s @ [(ref, basePage (k, flds))],
                    packetHashGetters = P @ P,
                    digestGetters = digestGetters s @ D,
                    signerGetters = signerGetters s @ S\<rparr>, r3 + length S))) = Inr (s1, r1)"
    using step by (simp only: getSolidity_forEach_eq [OF look])
  then have key: "(\<lparr>results = results s @ [typeSetupOf enc (k, flds)],
                  typeHashGetters = typeHashGetters s @ [(ref, basePage (k, flds))],
                  packetHashGetters = ?P @ ?P,
                  digestGetters = digestGetters s @ ?D,
                  signerGetters = signerGetters s @ ?S\<rparr>, ?r3 + length ?S) = (s1, r1)"
    by (simp only: sg sum.case Let_def sum.inject)
  have s1: "s1 = \<lparr>results = results s @ [typeSetupOf enc (k, flds)],
                  typeHashGetters = typeHashGetters s @ [(ref, basePage (k, flds))],
                  packetHashGetters = ?P @ ?P,
                  digestGetters = digestGetters s @ ?D,
                  signerGetters = signerGetters s @ ?S\<rparr>"
    using key by (simp only: prod.inject)
  have r1: "r1 = ?r3 + length ?S"
    using key by (simp only: prod.inject)
  have inv: "\<forall>x\<in>set (typeHashGetters s). fst x < ref" "\<forall>x\<in>set (packetHashGetters s). fst x < ref"
     "\<forall>x\<in>set (digestGetters s). fst x < ref" "\<forall>x\<in>set (signerGetters s). fst x < ref"
    using Cons.prems(3) by (auto simp: allocatedBelow_def)
  have inv1: "allocatedBelow (s1, r1)"
    using inv unfolding allocatedBelow_def s1 r1
    by (auto simp: in_set_enumerate_eq split: option.splits if_splits)
  have th: "newSet (typeHashGetters s1) = newSet (typeHashGetters s) @ [(ref, basePage (k, flds))]"
    unfolding s1 using inv(1) by (simp add: newSet_snoc_fresh)
  have ph: "newSet (packetHashGetters s1) = newSet (packetHashGetters s) @ enumerate (Suc ref) ?C"
    unfolding s1 using inv(2) newSet_doubled [of "packetHashGetters s" "Suc ref" ?C]
    by (simp add: less_Suc_eq)
  have "\<forall>x\<in>set (digestGetters s). fst x < ?r2" using inv(3) by auto
  then have dg: "newSet (digestGetters s1) = newSet (digestGetters s) @ ?D"
    unfolding s1 by (simp add: newSet_snoc_fresh)
  have "\<forall>x\<in>set (signerGetters s). fst x < ?r3" using inv(4) by auto
  then have sgs: "newSet (signerGetters s1) = newSet (signerGetters s) @ ?S"
    unfolding s1 by (cases sg) (simp_all add: newSet_snoc_fresh)
  have sgo: "map snd ?S = signerGettersOf config (k, flds)"
    using sg by (auto simp: signerGettersOf_def split: option.splits)
  have res: "results s1 = results s @ [typeSetupOf enc (k, flds)]" unfolding s1 by simp
  from Cons.IH [OF _ rest inv1] Cons.prems(1)
  show ?case
    by (simp add: e th ph dg sgs sgo res map_snd_enumerate)
qed


lemma entries_lookup:
  "distinct (map fst (types config)) \<Longrightarrow>
   \<forall>e\<in>set (types config). map_of (types config) (fst e) = Some (snd e)"
  by auto

lemma allocatedBelow_empty: "allocatedBelow (emptyGeneration, 0)"
  by (simp add: allocatedBelow_def emptyGeneration_def)

lemma getSolidity_eq:
  "getSolidity ext config =
     (case TypedDataEncoder ext (types config) of
        Inl message \<Rightarrow> Inl (EncoderError message)
      | Inr encodeType \<Rightarrow>
          (case forEach (getSolidity_forEach ext config encodeType (typeKeys config) (signerKeys config))
                  (map fst (types config)) (emptyGeneration, 0) of
             Inl e \<Rightarrow> Inl e
           | Inr (s, ref) \<Rightarrow>
               Inr \<lparr>results = results s,
                    typeHashGetters = newSet (typeHashGetters s),
                    packetHashGetters = newSet (packetHashGetters s),
                    digestGetters = newSet (digestGetters s),
                    signerGetters = newSet (signerGetters s)\<rparr>))"
  unfolding getSolidity_def typeKeys_def signerKeys_def Let_def ..

lemma getSolidity_Inl:
  assumes "distinct (map fst (types config))"
  shows "getSolidity ext config = Inl err \<longleftrightarrow>
           (\<exists>message. TypedDataEncoder ext (types config) = Inl message \<and> err = EncoderError message)
         \<or> ((\<exists>encodeType. TypedDataEncoder ext (types config) = Inr encodeType)
            \<and> (\<exists>e\<in>set (types config). signerEntry config e = Inl err))"
proof (cases "TypedDataEncoder ext (types config)")
  case (Inl message)
  then show ?thesis by (auto simp: getSolidity_eq)
next
  case (Inr encodeType)
  let ?loop = "forEach (getSolidity_forEach ext config encodeType (typeKeys config) (signerKeys config))
                 (map fst (types config)) (emptyGeneration, 0)"
  have "?loop = Inl err \<longleftrightarrow> (\<exists>e\<in>set (types config). signerEntry config e = Inl err)"
    by (rule forEach_getSolidity_Inl [OF entries_lookup [OF assms]])
  moreover have "getSolidity ext config = Inl err \<longleftrightarrow> ?loop = Inl err"
    by (cases ?loop) (auto simp: getSolidity_eq Inr)
  ultimately show ?thesis by (simp add: Inr)
qed

lemma getSolidity_Inr:
  assumes "distinct (map fst (types config))" and "getSolidity ext config = Inr g"
  shows "\<exists>encodeType. TypedDataEncoder ext (types config) = Inr encodeType
       \<and> results g = map (typeSetupOf encodeType) (types config)
       \<and> map snd (typeHashGetters g) = map basePage (types config)
       \<and> map snd (packetHashGetters g) = concat (map (createdGetters2 ext config) (types config))
       \<and> map snd (digestGetters g) =
           map (\<lambda>e. getSolidity_digestGetter config (fst e))
             (filter (\<lambda>e. fst e \<in> set (typeKeys config)) (types config))
       \<and> map snd (signerGetters g) = concat (map (signerGettersOf config) (types config))"
proof (cases "TypedDataEncoder ext (types config)")
  case (Inl message)
  then show ?thesis using assms(2) by (simp add: getSolidity_def)
next
  case (Inr encodeType)
  let ?loop = "forEach (getSolidity_forEach ext config encodeType (typeKeys config) (signerKeys config))
                 (map fst (types config)) (emptyGeneration, 0)"
  obtain s ref where loop: "?loop = Inr (s, ref)"
    and g: "g = \<lparr>results = results s, typeHashGetters = newSet (typeHashGetters s),
                   packetHashGetters = newSet (packetHashGetters s),
                   digestGetters = newSet (digestGetters s),
                   signerGetters = newSet (signerGetters s)\<rparr>"
    using assms(2) by (auto simp: getSolidity_eq Inr split: sum.splits)
  from forEach_getSolidity_Inr [OF entries_lookup [OF assms(1)] loop allocatedBelow_empty]
  show ?thesis
    by (simp add: Inr g emptyGeneration_def)
qed

lemma path_getArrayPacketHashGetter2:
  "fst (getArrayPacketHashGetter2 config typeName) =
     \<lparr>path = ''/hash-getters/'' @ getPacketHashGetterName config typeName @ ''.md''\<rparr>"
  by (simp add: getArrayPacketHashGetter2_def Let_def)

lemma path_getPacketHashGetters2_first:
  "fst (getPacketHashGetters2_first ext config typeName flds) =
     \<lparr>path = ''/hash-getters/'' @ getPacketHashGetterName config typeName @ ''.md''\<rparr>"
  by (simp add: getPacketHashGetters2_first_def path_getArrayPacketHashGetter2 Let_def)

lemma paths_createdGetters2:
  "map (\<lambda>getter. path (fst getter)) (createdGetters2 ext config e) =
     map (\<lambda>typeName. ''/hash-getters/'' @ getPacketHashGetterName config typeName @ ''.md'')
       (fst e # map type (filter (\<lambda>field. str_includes (type field) ''[]'') (snd e)))"
  by (simp add: createdGetters2_def path_getArrayPacketHashGetter2 path_getPacketHashGetters2_first
      comp_def)

lemma getSolidity_accepting:
  assumes "distinct (map fst (types config))"
      and "TypedDataEncoder ext (types config) = Inr encodeType"
      and "\<forall>e\<in>set (types config). \<exists>field\<in>set (snd e). name field \<noteq> ''signature''"
  shows "\<exists>g. getSolidity ext config = Inr g"
proof (cases "getSolidity ext config")
  case (Inl err)
  then obtain e where "e \<in> set (types config)" "signerEntry config e = Inl err"
    using getSolidity_Inl [OF assms(1), of ext err] assms(2) by auto
  then have False using assms(3) by (auto simp: signerEntry_Inl)
  then show ?thesis ..
next
  case (Inr g)
  then show ?thesis by blast
qed

lemmas evalConfigs =
  mailConfig_def sharedArrayConfig_def danglingConfig_def baselineConfig_def collidingConfig_def
  domainFields_def envelopeConfig_def envelopeFields_def tokenConfig_def ledgerConfig_def exampleContract_def qualifiedMode_def overloadedMode_def
  acceptingLibraries_def

section \<open>Deduplication\<close>

text \<open>
  C1, at a schema in which Box and Mail each have a field of type \<open>Person[]\<close>: the getter
  list that \<open>getSolidity\<close> returns holds two array getters for Person, one per field. The
  set that is to remove duplicates holds the getter objects, and each field makes a new one.
\<close>

theorem getSolidity_keeps_duplicate_array_getters:
  "map_sum id (\<lambda>g. map (\<lambda>x. path (fst (snd x))) (packetHashGetters g))
     (getSolidity acceptingLibraries sharedArrayConfig) =
   Inr [''/hash-getters/getPersonHash.md'', ''/hash-getters/getBoxHash.md'',
        ''/hash-getters/getPersonArrayHash.md'', ''/hash-getters/getMailHash.md'',
        ''/hash-getters/getPersonArrayHash.md'']"
proof -
  have d: "distinct (map fst (types sharedArrayConfig))" by (simp add: evalConfigs)
  obtain g where g: "getSolidity acceptingLibraries sharedArrayConfig = Inr g"
    using getSolidity_accepting [OF d, of acceptingLibraries "\<lambda>typeName. typeName @ ''(...)''"]
    by (auto simp: evalConfigs)
  obtain encodeType where
    ph: "map snd (packetHashGetters g) =
         concat (map (createdGetters2 acceptingLibraries sharedArrayConfig) (types sharedArrayConfig))"
    using getSolidity_Inr [OF d g] by blast
  have "map (\<lambda>x. path (fst (snd x))) (packetHashGetters g) =
        map (\<lambda>getter. path (fst getter)) (map snd (packetHashGetters g))"
    by simp
  also have "\<dots> = concat (map (\<lambda>e. map (\<lambda>getter. path (fst getter))
                                   (createdGetters2 acceptingLibraries sharedArrayConfig e))
                          (types sharedArrayConfig))"
    by (simp only: ph map_concat map_map comp_def)
  finally have "map (\<lambda>x. path (fst (snd x))) (packetHashGetters g) =
      [''/hash-getters/getPersonHash.md'', ''/hash-getters/getBoxHash.md'',
       ''/hash-getters/getPersonArrayHash.md'', ''/hash-getters/getMailHash.md'',
       ''/hash-getters/getPersonArrayHash.md'']"
    by (simp add: paths_createdGetters2 evalConfigs getPacketHashGetterName_def dropArrayMarker_def)
  then show ?thesis by (simp add: g)
qed

lemma getSolidity_pages:
  assumes "distinct (map fst (types config))" and "getSolidity ext config = Inr g"
  shows "length (results g) = length (types config)"
    and "map (\<lambda>x. path (snd x)) (typeHashGetters g) =
         map (\<lambda>e. ''/base-types/'' @ fst e @ ''.md'') (types config)"
    and "map (\<lambda>x. path (fst (snd x))) (packetHashGetters g) =
         concat (map (\<lambda>e. map (\<lambda>typeName. ''/hash-getters/'' @ getPacketHashGetterName config typeName @ ''.md'')
                   (fst e # map type (filter (\<lambda>field. str_includes (type field) ''[]'') (snd e))))
           (types config))"
proof -
  from getSolidity_Inr [OF assms] obtain encodeType where
    r: "results g = map (typeSetupOf encodeType) (types config)"
    and t: "map snd (typeHashGetters g) = map basePage (types config)"
    and p: "map snd (packetHashGetters g) = concat (map (createdGetters2 ext config) (types config))"
    by blast
  show "length (results g) = length (types config)" by (simp add: r)
  have "map (\<lambda>x. path (snd x)) (typeHashGetters g) = map path (map snd (typeHashGetters g))"
    by simp
  then show "map (\<lambda>x. path (snd x)) (typeHashGetters g) =
         map (\<lambda>e. ''/base-types/'' @ fst e @ ''.md'') (types config)"
    by (simp add: t basePage_def comp_def)
  have "map (\<lambda>x. path (fst (snd x))) (packetHashGetters g) =
        map (\<lambda>getter. path (fst getter)) (map snd (packetHashGetters g))"
    by simp
  also have "\<dots> = concat (map (\<lambda>e. map (\<lambda>getter. path (fst getter)) (createdGetters2 ext config e))
                          (types config))"
    by (simp only: p map_concat map_map comp_def)
  finally show "map (\<lambda>x. path (fst (snd x))) (packetHashGetters g) =
         concat (map (\<lambda>e. map (\<lambda>typeName. ''/hash-getters/'' @ getPacketHashGetterName config typeName @ ''.md'')
                   (fst e # map type (filter (\<lambda>field. str_includes (type field) ''[]'') (snd e))))
           (types config))"
    by (simp add: paths_createdGetters2)
qed

section \<open>Unresolved type references\<close>

lemma referenceCheckingEncoder_rejects: "rejectsUndeclared isBaseType referenceCheckingEncoder"
proof -
  have "isl (referenceCheckingEncoder ts)"
    if e: "e \<in> set ts" and f: "field \<in> set (snd e)" and u: "undeclaredField isBaseType ts field"
    for ts e field
  proof -
    have b: "baseTypeOf (type field) = type field"
      using u by (auto simp: undeclaredField_def baseTypeOf_def takeWhile_eq_all_conv)
    have "type field \<in> set (map (\<lambda>field. baseTypeOf (type field)) (concat (map snd ts)))"
      using e f b by force
    moreover have "\<not> isBaseType (type field) \<and> type field \<notin> set (map fst ts)"
      using u by (simp add: undeclaredField_def)
    ultimately have "find (\<lambda>t. \<not> isBaseType t \<and> t \<notin> set (map fst ts))
             (map (\<lambda>field. baseTypeOf (type field)) (concat (map snd ts))) \<noteq> None"
      unfolding find_None_iff by blast
    then show ?thesis by (auto simp: referenceCheckingEncoder_def)
  qed
  then show ?thesis unfolding rejectsUndeclared_def by blast
qed

text \<open>
  C2, as stated: a field of an undeclared type makes generation fail with a
  \<^verbatim>\<open>SchemaResolutionError\<close> that names the type and the field. The generator has no error
  of its own: with an encoder whose constructor checks the references, both variants fail
  with the error that constructor throws, which reports the type \<^verbatim>\<open>Ghost\<close> and no field.
\<close>

theorem generation_error_is_the_encoders:
  "TypedDataEncoder checkingLibraries (types danglingConfig) =
     Inl (''unknown type '' @ DQUOTE @ ''Ghost'' @ DQUOTE)
   \<and> generateSolidity checkingLibraries danglingConfig =
       Inl (EncoderError (''unknown type '' @ DQUOTE @ ''Ghost'' @ DQUOTE))
   \<and> getSolidity checkingLibraries danglingConfig =
       Inl (EncoderError (''unknown type '' @ DQUOTE @ ''Ghost'' @ DQUOTE))"
  by (simp add: getSolidity_eq generateSolidity_def checkingLibraries_def acceptingLibraries_def
      referenceCheckingEncoder_def danglingConfig_def baseTypeOf_def isBaseType_def numbered_def)

text \<open>
  C2, amended: when a declared type has a field whose type is neither primitive nor an
  array nor a declared type name, and the constructor of the typed-data encoder rejects
  such schemas, generation fails with the error that constructor throws, passed on as it
  is, and returns no artifact: \<open>generateSolidity\<close> and \<open>getSolidity\<close> return that error and
  nothing else, and \<open>generate\<close> on a baseline and that schema returns an error too.
\<close>

theorem generation_fails_with_encoder_error:
  assumes "rejectsUndeclared primitive (TypedDataEncoder ext)"
      and "(typeName, flds) \<in> set (types config)" and "field \<in> set flds"
      and "undeclaredField primitive (types config) field"
  shows "(case TypedDataEncoder ext (types config) of
            Inl message \<Rightarrow>
              generateSolidity ext config = Inl (EncoderError message)
              \<and> getSolidity ext config = Inl (EncoderError message)
          | Inr encodeType \<Rightarrow> False)
       \<and> isl (generate2 ext constantsConfig config)"
proof -
  have "isl (TypedDataEncoder ext (types config))"
    using assms unfolding rejectsUndeclared_def by force
  then obtain message where m: "TypedDataEncoder ext (types config) = Inl message"
    by (cases "TypedDataEncoder ext (types config)") auto
  have g: "getSolidity ext config = Inl (EncoderError message)"
    by (simp add: getSolidity_eq m)
  have "generateSolidity ext config = Inl (EncoderError message)"
    by (simp add: generateSolidity_def m)
  moreover have "isl (generate2 ext constantsConfig config)"
    by (simp add: generate2_def g split: sum.splits)
  ultimately show ?thesis using g by (simp add: m)
qed

theorem generation_fails_with_encoder_error_witness:
  "rejectsUndeclared isBaseType (TypedDataEncoder checkingLibraries)
   \<and> (''Mail'', [\<lparr>name = ''from'', type = ''Ghost''\<rparr>]) \<in> set (types danglingConfig)
   \<and> undeclaredField isBaseType (types danglingConfig) \<lparr>name = ''from'', type = ''Ghost''\<rparr>
   \<and> generateSolidity checkingLibraries danglingConfig =
       Inl (EncoderError (''unknown type '' @ DQUOTE @ ''Ghost'' @ DQUOTE))
   \<and> getSolidity checkingLibraries danglingConfig =
       Inl (EncoderError (''unknown type '' @ DQUOTE @ ''Ghost'' @ DQUOTE))
   \<and> isl (generate2 checkingLibraries baselineConfig danglingConfig)"
proof -
  have 1: "rejectsUndeclared isBaseType (TypedDataEncoder checkingLibraries)"
    by (simp add: checkingLibraries_def acceptingLibraries_def referenceCheckingEncoder_rejects)
  have 2: "(''Mail'', [\<lparr>name = ''from'', type = ''Ghost''\<rparr>]) \<in> set (types danglingConfig)"
    by (simp add: danglingConfig_def)
  have 3: "undeclaredField isBaseType (types danglingConfig) \<lparr>name = ''from'', type = ''Ghost''\<rparr>"
    by (simp add: undeclaredField_def danglingConfig_def isBaseType_def numbered_def)
  have e: "TypedDataEncoder checkingLibraries (types danglingConfig) =
     Inl (''unknown type '' @ DQUOTE @ ''Ghost'' @ DQUOTE)"
    by (simp add: checkingLibraries_def acceptingLibraries_def
      referenceCheckingEncoder_def danglingConfig_def baseTypeOf_def isBaseType_def numbered_def)
  from generation_fails_with_encoder_error [OF 1 2 _ 3, of baselineConfig] 1 2 3
  show ?thesis unfolding e sum.case by simp
qed

lemma find_SomeD: "find P xs = Some x \<Longrightarrow> P x \<and> x \<in> set xs"
  by (induction xs) (auto split: if_splits)

lemma signerEntry_Inr:
  "signerEntry config e = Inr sg \<Longrightarrow>
   (sg \<noteq> None) = (\<exists>field\<in>set (snd e). name field = ''signature'')"
  by (auto simp: signerEntry_def Let_def find_None_iff split: option.splits sum.splits
      dest: find_SomeD)

lemma path_signerGetter:
  "fst (getSolidity_signerGetter config typeName digestGetterName dataFieldName) =
     \<lparr>path = ''/signer-getters/'' @ getSignerGetterName config typeName @ ''.md''\<rparr>"
  by (simp add: getSolidity_signerGetter_def Let_def)

lemma path_digestGetter:
  "fst (getSolidity_digestGetter config typeName) =
     \<lparr>path = ''/digest-getters/'' @ getDigestGetterName config typeName @ ''.md''\<rparr>"
  by (simp add: getSolidity_digestGetter_def Let_def)

lemma signerGettersOf_path:
  "getter \<in> set (signerGettersOf config e) \<Longrightarrow>
   fst getter = \<lparr>path = ''/signer-getters/'' @ getSignerGetterName config (fst e) @ ''.md''\<rparr>"
  by (auto simp: signerGettersOf_def signerEntry_def Let_def path_signerGetter
      split: option.splits sum.splits if_splits)

lemma getSolidity_Inr_signerEntry:
  assumes "distinct (map fst (types config))" and "getSolidity ext config = Inr g"
      and "e \<in> set (types config)"
  shows "\<exists>sg. signerEntry config e = Inr sg"
proof (cases "signerEntry config e")
  case (Inl err)
  then have "getSolidity ext config = Inl err"
    using getSolidity_Inl [OF assms(1), of ext err] assms(2,3) getSolidity_Inr [OF assms(1,2)]
    by auto
  then show ?thesis using assms(2) by simp
next
  case (Inr sg)
  then show ?thesis by blast
qed

lemma in_typeKeys:
  "key \<in> set (map fst (types config)) \<Longrightarrow>
   key \<in> set (typeKeys config) \<longleftrightarrow> (''Live'' @ key) \<in> set (map fst (types config))"
  by (auto simp: typeKeys_def)

lemma in_signerKeys:
  "key \<in> set (map fst (types config)) \<Longrightarrow>
   key \<in> set (signerKeys config) \<longleftrightarrow> replace key ''Live'' [] \<in> set (map fst (types config))"
  by (auto simp: signerKeys_def)

lemma digest_and_signer_go_by_name_aux:
  assumes "distinct (map fst (types config))" and "getSolidity ext config = Inr g"
  shows "map snd (digestGetters g) =
           map (\<lambda>e. getSolidity_digestGetter config (fst e))
             (filter (\<lambda>e. (''Live'' @ fst e) \<in> set (map fst (types config))) (types config))"
proof -
  have "filter (\<lambda>e. fst e \<in> set (typeKeys config)) (types config) =
        filter (\<lambda>e. (''Live'' @ fst e) \<in> set (map fst (types config))) (types config)"
    by (rule filter_cong) (auto simp: in_typeKeys)
  then show ?thesis
    using getSolidity_Inr [OF assms] by auto
qed

lemma envelope_runs:
  "distinct (map fst (types envelopeConfig))"
  "\<exists>g. getSolidity acceptingLibraries envelopeConfig = Inr g"
proof -
  show d: "distinct (map fst (types envelopeConfig))" by (simp add: evalConfigs)
  show "\<exists>g. getSolidity acceptingLibraries envelopeConfig = Inr g"
    using getSolidity_accepting [OF d, of acceptingLibraries "\<lambda>typeName. typeName @ ''(...)''"]
    by (auto simp: evalConfigs)
qed

section \<open>Digest and signer getters\<close>

text \<open>
  C5, amended. Which types get a digest getter and a signer getter is decided by names, and
  the configuration has no pairing policy. A run that does not fail emits a digest getter
  for exactly the declared types whose name, prefixed with \<open>Live\<close>, is also a declared
  name; it emits one signer getter for a declared type when the type has a field called
  \<open>signature\<close> and its name, with the first \<open>Live\<close> removed, is a declared name (as every
  declared name without \<open>Live\<close> is), and none otherwise. The other fields and the field
  types play no role.
\<close>

theorem digest_and_signer_go_by_name:
  assumes "distinct (map fst (types config))" and "getSolidity ext config = Inr g"
  shows "map snd (digestGetters g) =
           map (\<lambda>e. getSolidity_digestGetter config (fst e))
             (filter (\<lambda>e. (''Live'' @ fst e) \<in> set (map fst (types config))) (types config))
       \<and> map snd (signerGetters g) = concat (map (signerGettersOf config) (types config))
       \<and> (\<forall>e\<in>set (types config).
            length (signerGettersOf config e) =
              (if (\<exists>field\<in>set (snd e). name field = ''signature'')
                  \<and> replace (fst e) ''Live'' [] \<in> set (map fst (types config))
               then 1 else 0)
            \<and> (\<forall>getter\<in>set (signerGettersOf config e).
                  fst getter =
                    \<lparr>path = ''/signer-getters/'' @ getSignerGetterName config (fst e) @ ''.md''\<rparr>))"
proof -
  have "filter (\<lambda>e. fst e \<in> set (typeKeys config)) (types config) =
        filter (\<lambda>e. (''Live'' @ fst e) \<in> set (map fst (types config))) (types config)"
    by (rule filter_cong) (auto simp: in_typeKeys)
  then have 1: "map snd (digestGetters g) =
           map (\<lambda>e. getSolidity_digestGetter config (fst e))
             (filter (\<lambda>e. (''Live'' @ fst e) \<in> set (map fst (types config))) (types config))"
    using getSolidity_Inr [OF assms] by auto
  have 2: "map snd (signerGetters g) = concat (map (signerGettersOf config) (types config))"
    using getSolidity_Inr [OF assms] by auto
  have 3: "length (signerGettersOf config e) =
              (if (\<exists>field\<in>set (snd e). name field = ''signature'')
                  \<and> replace (fst e) ''Live'' [] \<in> set (map fst (types config))
               then 1 else 0)" if e: "e \<in> set (types config)" for e
  proof -
    obtain sg where sg: "signerEntry config e = Inr sg"
      using getSolidity_Inr_signerEntry [OF assms e] by blast
    have k: "fst e \<in> set (signerKeys config) \<longleftrightarrow>
             replace (fst e) ''Live'' [] \<in> set (map fst (types config))"
      using e by (intro in_signerKeys) auto
    show ?thesis
      using signerEntry_Inr [OF sg] k by (cases sg) (auto simp: signerGettersOf_def sg)
  qed
  show ?thesis using 1 2 3 signerGettersOf_path by blast
qed

theorem digest_and_signer_go_by_name_witness:
  "distinct (map fst (types envelopeConfig))
   \<and> (case getSolidity acceptingLibraries envelopeConfig of
        Inl e \<Rightarrow> False
      | Inr g \<Rightarrow>
          map snd (digestGetters g) = [getSolidity_digestGetter envelopeConfig ''Pin'']
          \<and> map snd (signerGetters g) = signerGettersOf envelopeConfig (''Envelope'', envelopeFields)
          \<and> length (signerGettersOf envelopeConfig (''Envelope'', envelopeFields)) = 1
          \<and> length (signerGettersOf envelopeConfig (''LivePin'', [\<lparr>name = ''memo'', type = ''string''\<rparr>])) = 0)"
proof -
  obtain g where g: "getSolidity acceptingLibraries envelopeConfig = Inr g"
    using envelope_runs(2) by blast
  have t: "types envelopeConfig =
      [(''Pin'', [\<lparr>name = ''id'', type = ''uint256''\<rparr>]),
       (''LivePin'', [\<lparr>name = ''memo'', type = ''string''\<rparr>]),
       (''Envelope'', envelopeFields)]"
    by (simp add: envelopeConfig_def)
  note inst = digest_and_signer_go_by_name [OF envelope_runs(1) g]
  from inst have a: "map snd (digestGetters g) = [getSolidity_digestGetter envelopeConfig ''Pin'']"
    by (simp add: t)
  from inst have len: "\<And>e. e \<in> set (types envelopeConfig) \<Longrightarrow>
      length (signerGettersOf envelopeConfig e) =
        (if (\<exists>field\<in>set (snd e). name field = ''signature'')
            \<and> replace (fst e) ''Live'' [] \<in> set (map fst (types envelopeConfig))
         then 1 else 0)"
    by blast
  have l1: "length (signerGettersOf envelopeConfig (''Pin'', [\<lparr>name = ''id'', type = ''uint256''\<rparr>])) = 0"
    using len [of "(''Pin'', [\<lparr>name = ''id'', type = ''uint256''\<rparr>])"] by (simp add: t)
  have l2: "length (signerGettersOf envelopeConfig (''LivePin'', [\<lparr>name = ''memo'', type = ''string''\<rparr>])) = 0"
    using len [of "(''LivePin'', [\<lparr>name = ''memo'', type = ''string''\<rparr>])"] by (simp add: t)
  have l3: "length (signerGettersOf envelopeConfig (''Envelope'', envelopeFields)) = 1"
    using len [of "(''Envelope'', envelopeFields)"] by (simp add: t envelopeFields_def)
  from inst have "map snd (signerGetters g) =
      concat (map (signerGettersOf envelopeConfig) (types envelopeConfig))"
    by (rule conjunct1 [OF conjunct2])
  then have b: "map snd (signerGetters g) = signerGettersOf envelopeConfig (''Envelope'', envelopeFields)"
    using l1 l2 by (simp add: t)
  show ?thesis
    unfolding g sum.case
    using envelope_runs(1) a b l3 l2 by (intro conjI) assumption+
qed

text \<open>
  C10. For a declared type that gets a signer getter (a field called \<open>signature\<close>, and a
  name that is declared once its first \<open>Live\<close> is removed), let \<open>payload\<close> be the first
  declared field whose name is not \<open>signature\<close>, whatever its type and however many other
  fields there are. The signer getter of the type is among the getters returned, and it
  recovers the signer from the digest getter named after the name of that field, applied
  to that field. (When all fields are called \<open>signature\<close> there is no such field, and the
  getter is built from \<^verbatim>\<open>undefined\<close>.)
\<close>

theorem signer_payload_is_first_other_field:
  assumes "distinct (map fst (types config))" and "getSolidity ext config = Inr g"
      and "(typeName, flds) \<in> set (types config)"
      and "\<exists>field\<in>set flds. name field = ''signature''"
      and "replace typeName ''Live'' [] \<in> set (map fst (types config))"
      and "find (\<lambda>field. name field \<noteq> ''signature'') flds = Some payload"
  shows "(\<lparr>path = ''/signer-getters/'' @ getSignerGetterName config typeName @ ''.md''\<rparr>,
          ''\<newline>    /**'' @ getSolidity_signerDocumentation typeName @ ''\<newline>     */'' @
          ''\<newline>    function '' @ getSignerGetterName config typeName @ ''(\<newline>'' @
          ''        '' @ Contract.name (contract config) @ ''Lib.'' @ typeName @ '' memory $input\<newline>'' @
          ''    ) public view virtual returns (address $signer) {\<newline>'' @
          ''        $signer = '' @ getDigestGetterName config (name payload) @
               ''($input.'' @ name payload @ '').recover(\<newline>'' @
          ''            $input.signature\<newline>'' @
          ''        );\<newline>'' @
          ''    }'') \<in> snd ` set (signerGetters g)"
proof -
  let ?getter = "getSolidity_signerGetter config typeName (getDigestGetterName config (name payload))
                   (name payload)"
  have "find (\<lambda>field. name field = ''signature'') flds \<noteq> None"
    using assms(4) by (auto simp: find_None_iff)
  then have se: "signerEntry config (typeName, flds) = Inr (Some ?getter)"
    using assms(6)
    by (auto simp: signerEntry_def Let_def getDigestGetterName_cast_def templateText_def)
  have "typeName \<in> set (signerKeys config)"
    using assms(3,5) in_signerKeys [of typeName config] by force
  then have "signerGettersOf config (typeName, flds) = [?getter]"
    by (simp add: signerGettersOf_def se)
  then have "?getter \<in> set (concat (map (signerGettersOf config) (types config)))"
    using assms(3) by force
  then have "?getter \<in> snd ` set (signerGetters g)"
    using getSolidity_Inr [OF assms(1,2)] by (metis set_map)
  then show ?thesis
    by (simp add: getSolidity_signerGetter_def getSolidity_signerImplementation_def Let_def)
qed


theorem signer_payload_is_first_other_field_witness:
  "distinct (map fst (types envelopeConfig))
   \<and> (''Envelope'', envelopeFields) \<in> set (types envelopeConfig)
   \<and> (\<exists>field\<in>set envelopeFields. name field = ''signature'')
   \<and> replace ''Envelope'' ''Live'' [] \<in> set (map fst (types envelopeConfig))
   \<and> find (\<lambda>field. name field \<noteq> ''signature'') envelopeFields = Some \<lparr>name = ''pin'', type = ''Pin''\<rparr>
   \<and> (case getSolidity acceptingLibraries envelopeConfig of
        Inl e \<Rightarrow> False
      | Inr g \<Rightarrow>
          (\<lparr>path = ''/signer-getters/getEnvelopeSigner.md''\<rparr>,
           ''\<newline>    /**'' @ getSolidity_signerDocumentation ''Envelope'' @ ''\<newline>     */'' @
           ''\<newline>    function getEnvelopeSigner(\<newline>'' @
           ''        TypesLib.Envelope memory $input\<newline>'' @
           ''    ) public view virtual returns (address $signer) {\<newline>'' @
           ''        $signer = getpinDigest($input.pin).recover(\<newline>'' @
           ''            $input.signature\<newline>'' @
           ''        );\<newline>'' @
           ''    }'') \<in> snd ` set (signerGetters g))"
proof -
  obtain g where g: "getSolidity acceptingLibraries envelopeConfig = Inr g"
    using envelope_runs(2) by blast
  have h1: "(''Envelope'', envelopeFields) \<in> set (types envelopeConfig)"
    by (simp add: envelopeConfig_def)
  have h2: "\<exists>field\<in>set envelopeFields. name field = ''signature''"
    by (simp add: envelopeFields_def)
  have h3: "replace ''Envelope'' ''Live'' [] \<in> set (map fst (types envelopeConfig))"
    by (simp add: envelopeConfig_def)
  have h4: "find (\<lambda>field. name field \<noteq> ''signature'') envelopeFields = Some \<lparr>name = ''pin'', type = ''Pin''\<rparr>"
    by (simp add: envelopeFields_def)
  have names: "getSignerGetterName envelopeConfig ''Envelope'' = ''getEnvelopeSigner''"
    "getDigestGetterName envelopeConfig ''pin'' = ''getpinDigest''"
    "Contract.name (contract envelopeConfig) = ''Types''"
    by (simp_all add: getSignerGetterName_def getDigestGetterName_def evalConfigs)
  from signer_payload_is_first_other_field [OF envelope_runs(1) g h1 h2 h3 h4]
  have "(\<lparr>path = ''/signer-getters/getEnvelopeSigner.md''\<rparr>,
           ''\<newline>    /**'' @ getSolidity_signerDocumentation ''Envelope'' @ ''\<newline>     */'' @
           ''\<newline>    function getEnvelopeSigner(\<newline>'' @
           ''        TypesLib.Envelope memory $input\<newline>'' @
           ''    ) public view virtual returns (address $signer) {\<newline>'' @
           ''        $signer = getpinDigest($input.pin).recover(\<newline>'' @
           ''            $input.signature\<newline>'' @
           ''        );\<newline>'' @
           ''    }'') \<in> snd ` set (signerGetters g)"
    by (simp add: names)
  then show ?thesis
    unfolding g sum.case
    using envelope_runs(1) h1 h2 h3 h4 by (intro conjI) assumption+
qed

lemma getSolidity_lists:
  assumes "distinct (map fst (types config))" and "getSolidity ext config = Inr g"
  shows "map snd (typeHashGetters g) = map basePage (types config)"
    and "map snd (packetHashGetters g) = concat (map (createdGetters2 ext config) (types config))"
    and "map snd (digestGetters g) =
           map (\<lambda>e. getSolidity_digestGetter config (fst e))
             (filter (\<lambda>e. fst e \<in> set (typeKeys config)) (types config))"
    and "map snd (signerGetters g) = concat (map (signerGettersOf config) (types config))"
  using getSolidity_Inr [OF assms] by auto

lemma getSolidity_getter_paths:
  assumes "distinct (map fst (types config))" and "getSolidity ext config = Inr g"
  shows "map (\<lambda>x. path (fst (snd x))) (digestGetters g) =
           map (\<lambda>e. ''/digest-getters/'' @ getDigestGetterName config (fst e) @ ''.md'')
             (filter (\<lambda>e. (''Live'' @ fst e) \<in> set (map fst (types config))) (types config))"
    and "map (\<lambda>x. path (fst (snd x))) (signerGetters g) =
           concat (map (\<lambda>e. map (\<lambda>getter. ''/signer-getters/'' @ getSignerGetterName config (fst e) @ ''.md'')
                          (signerGettersOf config e)) (types config))"
proof -
  have "map (\<lambda>x. path (fst (snd x))) (digestGetters g) =
        map (\<lambda>getter. path (fst getter)) (map snd (digestGetters g))"
    by simp
  then show "map (\<lambda>x. path (fst (snd x))) (digestGetters g) =
           map (\<lambda>e. ''/digest-getters/'' @ getDigestGetterName config (fst e) @ ''.md'')
             (filter (\<lambda>e. (''Live'' @ fst e) \<in> set (map fst (types config))) (types config))"
    using digest_and_signer_go_by_name_aux [OF assms]
    by (simp add: path_digestGetter comp_def)
  have "map (\<lambda>x. path (fst (snd x))) (signerGetters g) =
        map (\<lambda>getter. path (fst getter)) (map snd (signerGetters g))"
    by simp
  also have "\<dots> = concat (map (\<lambda>e. map (\<lambda>getter. path (fst getter)) (signerGettersOf config e))
                          (types config))"
    by (simp only: getSolidity_lists(4) [OF assms] map_concat map_map comp_def)
  also have "\<dots> = concat (map (\<lambda>e. map (\<lambda>getter. ''/signer-getters/'' @ getSignerGetterName config (fst e) @ ''.md'')
                          (signerGettersOf config e)) (types config))"
    by (rule arg_cong [where f = concat], rule map_cong, rule refl, rule map_cong, rule refl)
       (simp add: signerGettersOf_path)
  finally show "map (\<lambda>x. path (fst (snd x))) (signerGetters g) =
           concat (map (\<lambda>e. map (\<lambda>getter. ''/signer-getters/'' @ getSignerGetterName config (fst e) @ ''.md'')
                          (signerGettersOf config e)) (types config))" .
qed

lemma envelope_signerGettersOf:
  "length (signerGettersOf envelopeConfig (''Pin'', [\<lparr>name = ''id'', type = ''uint256''\<rparr>])) = 0"
  "length (signerGettersOf envelopeConfig (''LivePin'', [\<lparr>name = ''memo'', type = ''string''\<rparr>])) = 0"
  "length (signerGettersOf envelopeConfig (''Envelope'', envelopeFields)) = 1"
  by (simp_all add: signerGettersOf_def signerEntry_def signerKeys_def getDigestGetterName_cast_def
      Let_def evalConfigs)

text \<open>
  C5, as stated: a digest getter only for a type that a pairing policy designates, a
  signer getter only for a type with one signature field and one payload field of a
  digest-eligible type. Pin gets a digest getter because a type called LivePin exists, and
  Envelope, which has three fields besides \<open>signature\<close>, gets a signer getter.
\<close>

theorem getters_by_name_pattern:
  "map_sum id (\<lambda>g. (map (\<lambda>x. path (fst (snd x))) (digestGetters g),
                     map (\<lambda>x. path (fst (snd x))) (signerGetters g)))
     (getSolidity acceptingLibraries envelopeConfig) =
   Inr ([''/digest-getters/getPinDigest.md''], [''/signer-getters/getEnvelopeSigner.md''])
   \<and> map name (filter (\<lambda>field. name field \<noteq> ''signature'') envelopeFields) =
       [''pin'', ''live'', ''extra'']"
proof -
  obtain g where g: "getSolidity acceptingLibraries envelopeConfig = Inr g"
    using envelope_runs(2) by blast
  have t: "types envelopeConfig =
      [(''Pin'', [\<lparr>name = ''id'', type = ''uint256''\<rparr>]),
       (''LivePin'', [\<lparr>name = ''memo'', type = ''string''\<rparr>]),
       (''Envelope'', envelopeFields)]"
    by (simp add: envelopeConfig_def)
  have 1: "map (\<lambda>x. path (fst (snd x))) (digestGetters g) = [''/digest-getters/getPinDigest.md'']"
    unfolding getSolidity_getter_paths(1) [OF envelope_runs(1) g]
    by (simp add: evalConfigs getDigestGetterName_def)
  have l: "\<And>e f. length (signerGettersOf envelopeConfig e) = 0 \<Longrightarrow> map f (signerGettersOf envelopeConfig e) = []"
          "\<And>e f. length (signerGettersOf envelopeConfig e) = 1 \<Longrightarrow>
                 map (\<lambda>getter. f) (signerGettersOf envelopeConfig e) = [f]"
    by (simp, metis (no_types) One_nat_def length_0_conv length_Suc_conv list.simps(8,9))
  have 2: "map (\<lambda>x. path (fst (snd x))) (signerGetters g) = [''/signer-getters/getEnvelopeSigner.md'']"
    unfolding getSolidity_getter_paths(2) [OF envelope_runs(1) g] t
    by (simp add: l envelope_signerGettersOf)
       (simp add: getSignerGetterName_def evalConfigs)
  have 3: "map name (filter (\<lambda>field. name field \<noteq> ''signature'') envelopeFields) =
       [''pin'', ''live'', ''extra'']"
    by (simp add: envelopeFields_def)
  show ?thesis using 1 2 3 by (simp add: g)
qed

section \<open>Array getters and struct getters\<close>

lemma foldl_push:
  "foldl (\<lambda>(getters, ref) field. (getters @ [(ref, f field)], Suc ref)) (gs, r) xs =
     (gs @ enumerate r (map f xs), r + length xs)"
  by (induction xs arbitrary: gs r) (simp_all add: enumerate_simps)

lemma getPacketHashGetters1_eq:
  "getPacketHashGetters1 ext config typeName flds (gs, r) =
     (gs @ enumerate r (createdGetters1 ext config (typeName, flds)),
      r + length (createdGetters1 ext config (typeName, flds)))"
  by (simp add: getPacketHashGetters1_def foldl_push createdGetters1_def enumerate_simps)

lemma generateSolidity_forEach_getters:
  assumes "map_of (types config) k = Some flds"
  shows "snd (snd (fst (generateSolidity_forEach ext config enc k ((res, pages, getters), ref)))) =
           (getters @ enumerate (Suc ref) (createdGetters1 ext config (k, flds))) @
           (getters @ enumerate (Suc ref) (createdGetters1 ext config (k, flds)))"
    and "snd (generateSolidity_forEach ext config enc k ((res, pages, getters), ref)) =
           Suc ref + length (createdGetters1 ext config (k, flds))"
  using assms
  by (simp_all add: generateSolidity_forEach_def getPacketHashGetters1_eq Let_def)

lemma foldl_generateSolidity_forEach:
  assumes "\<forall>e\<in>set es. map_of (types config) (fst e) = Some (snd e)"
      and "\<forall>x\<in>set getters. fst x < ref"
      and "foldl (\<lambda>st typeName. generateSolidity_forEach ext config enc typeName st)
             ((res, pages, getters), ref) (map fst es) = ((res', pages', getters'), ref')"
  shows "(\<forall>x\<in>set getters'. fst x < ref')
       \<and> map snd (newSet getters') =
           map snd (newSet getters) @ concat (map (createdGetters1 ext config) es)"
  using assms
proof (induction es arbitrary: res pages getters ref)
  case Nil
  then show ?case by simp
next
  case (Cons e es)
  obtain k flds where e: "e = (k, flds)" by (cases e)
  have look: "map_of (types config) k = Some flds" using Cons.prems(1) e by simp
  let ?C = "createdGetters1 ext config (k, flds)"
  let ?P = "getters @ enumerate (Suc ref) ?C"
  obtain res1 pages1 getters1 ref1 where
    step: "generateSolidity_forEach ext config enc k ((res, pages, getters), ref) =
             ((res1, pages1, getters1), ref1)"
    by (metis prod.exhaust)
  from generateSolidity_forEach_getters [OF look, of ext enc res pages getters ref]
  have g1: "getters1 = ?P @ ?P" and r1: "ref1 = Suc ref + length ?C"
    by (simp_all add: step)
  have below: "\<forall>x\<in>set getters. fst x < Suc ref" using Cons.prems(2) by auto
  have inv: "\<forall>x\<in>set getters1. fst x < ref1"
    using Cons.prems(2) by (auto simp: g1 r1 in_set_enumerate_eq)
  have rest: "foldl (\<lambda>st typeName. generateSolidity_forEach ext config enc typeName st)
             ((res1, pages1, getters1), ref1) (map fst es) = ((res', pages', getters'), ref')"
    using Cons.prems(3) by (simp add: e step)
  have "\<forall>e\<in>set es. map_of (types config) (fst e) = Some (snd e)" using Cons.prems(1) by simp
  from Cons.IH [OF this inv rest]
  have "(\<forall>x\<in>set getters'. fst x < ref')
       \<and> map snd (newSet getters') =
           map snd (newSet getters1) @ concat (map (createdGetters1 ext config) es)" .
  moreover have "newSet getters1 = newSet getters @ enumerate (Suc ref) ?C"
    unfolding g1 by (rule newSet_doubled [OF below])
  ultimately show ?case by (simp add: e map_snd_enumerate)
qed

lemma generateSolidity_getters:
  assumes "distinct (map fst (types config))" and "generateSolidity ext config = Inr r"
  shows "map snd (snd (snd r)) = concat (map (createdGetters1 ext config) (types config))"
proof -
  obtain enc where enc: "TypedDataEncoder ext (types config) = Inr enc"
    using assms(2) by (cases "TypedDataEncoder ext (types config)") (auto simp: generateSolidity_def)
  obtain res pages getters ref where
    loop: "foldl (\<lambda>st typeName. generateSolidity_forEach ext config enc typeName st)
             (([], [], []), 0) (map fst (types config)) = ((res, pages, getters), ref)"
    by (metis prod.exhaust)
  have r: "r = (res, newSet pages, newSet getters)"
    using assms(2) by (simp add: generateSolidity_def enc loop)
  from foldl_generateSolidity_forEach [OF entries_lookup [OF assms(1)] _ loop]
  show ?thesis by (simp add: r)
qed

lemma length_concat_created:
  assumes "\<And>e. length (C e) = Suc (length (filter P (snd e)))"
  shows "length (concat (map C ys)) = length ys + length (filter P (concat (map snd ys)))"
  by (induction ys) (simp_all add: assms)

lemma concat_map_nth_first:
  assumes "i < length xs" and "\<And>e. C e = first e # others e"
  shows "concat (map C xs) ! length (concat (map C (take i xs))) = first (xs ! i)"
    and "length (concat (map C (take i xs))) < length (concat (map C xs))"
proof -
  have "xs = take i xs @ xs ! i # drop (Suc i) xs"
    using assms(1) by (simp add: id_take_nth_drop)
  then have "concat (map C xs) =
        concat (map C (take i xs)) @ (first (xs ! i) # others (xs ! i)) @ concat (map C (drop (Suc i) xs))"
    by (metis assms(2) concat.simps(2) concat_append list.simps(9) map_append)
  then show "concat (map C xs) ! length (concat (map C (take i xs))) = first (xs ! i)"
    and "length (concat (map C (take i xs))) < length (concat (map C xs))"
    by (simp_all add: nth_append)
qed

lemma created2_nth:
  assumes "i < length (types config)" and "types config ! i = (typeName, flds)"
  shows "concat (map (createdGetters2 ext config) (types config)) ! gettersBefore config i =
           getPacketHashGetters2_first ext config typeName flds"
    and "gettersBefore config i < length (concat (map (createdGetters2 ext config) (types config)))"
proof -
  have len: "length (concat (map (createdGetters2 ext config) (take i (types config)))) =
        gettersBefore config i"
    using assms(1)
    by (simp add: gettersBefore_def
        length_concat_created [where C = "createdGetters2 ext config"
          and P = "\<lambda>field. str_includes (type field) ''[]''"] createdGetters2_def)
  from concat_map_nth_first [OF assms(1), where C = "createdGetters2 ext config"
      and first = "\<lambda>e. getPacketHashGetters2_first ext config (fst e) (snd e)"
      and others = "\<lambda>e. map (\<lambda>field. getArrayPacketHashGetter2 config (type field))
                      (filter (\<lambda>field. str_includes (type field) ''[]'') (snd e))"]
  show "concat (map (createdGetters2 ext config) (types config)) ! gettersBefore config i =
           getPacketHashGetters2_first ext config typeName flds"
    and "gettersBefore config i < length (concat (map (createdGetters2 ext config) (types config)))"
    by (simp_all add: len createdGetters2_def assms(2))
qed

lemma created1_nth:
  assumes "i < length (types config)" and "types config ! i = (typeName, flds)"
  shows "concat (map (createdGetters1 ext config) (types config)) ! gettersBefore config i =
           getPacketHashGetters1_first ext config typeName flds"
    and "gettersBefore config i < length (concat (map (createdGetters1 ext config) (types config)))"
proof -
  have len: "length (concat (map (createdGetters1 ext config) (take i (types config)))) =
        gettersBefore config i"
    using assms(1)
    by (simp add: gettersBefore_def
        length_concat_created [where C = "createdGetters1 ext config"
          and P = "\<lambda>field. str_includes (type field) ''[]''"] createdGetters1_def)
  from concat_map_nth_first [OF assms(1), where C = "createdGetters1 ext config"
      and first = "\<lambda>e. getPacketHashGetters1_first ext config (fst e) (snd e)"
      and others = "\<lambda>e. map (\<lambda>field. getArrayPacketHashGetter1 ext config (type field))
                      (filter (\<lambda>field. str_includes (type field) ''[]'') (snd e))"]
  show "concat (map (createdGetters1 ext config) (types config)) ! gettersBefore config i =
           getPacketHashGetters1_first ext config typeName flds"
    and "gettersBefore config i < length (concat (map (createdGetters1 ext config) (types config)))"
    by (simp_all add: len createdGetters1_def assms(2))
qed

lemma generateSolidity_accepting:
  "TypedDataEncoder ext (types config) = Inr encodeType \<Longrightarrow> \<exists>r. generateSolidity ext config = Inr r"
  by (simp add: generateSolidity_def split: prod.splits)

text \<open>
  C8. For every declared type whose name does not contain the array marker, the packet
  hash getter emitted for it, which stands in the getter list that generation returns (in
  both variants of the file) after the getters made for the types declared before it, has
  a body that hashes \<^verbatim>\<open>abi.encode\<close> of the type-hash constant of the type followed by the
  encoded values of the fields, joined in the order the fields are declared: the i-th
  encoded argument is that of the i-th field.
\<close>

theorem packet_hash_getter_encodes_fields_in_order:
  assumes "distinct (map fst (types config))"
      and "i < length (types config)" and "types config ! i = (typeName, flds)"
      and \<open>\<not> str_includes typeName ''[]''\<close>
  shows \<open>(getSolidity ext config = Inr g \<longrightarrow>
            gettersBefore config i < length (packetHashGetters g)
          \<and> snd (packetHashGetters g ! gettersBefore config i) =
             (\<lparr>path = ''/hash-getters/'' @ getPacketHashGetterName config typeName @ ''.md''\<rparr>,
              ''    /**'' @ getPacketHashGetters2_documentation typeName @ ''\<newline>     */'' @
              ''\<newline>'' @
              ''    function '' @ getPacketHashGetterName config typeName @ ''(\<newline>'' @
              ''        '' @ Contract.name (contract config) @ ''Lib.'' @ typeName @ '' memory $input\<newline>'' @
              ''    ) public pure virtual returns (bytes32 $hash) {\<newline>'' @
              ''        $hash = keccak256(abi.encode(\<newline>'' @
              ''            '' @ typeHashName typeName @ '',\<newline>'' @
              ''            '' @ join ('',\<newline>'' @ TAB @ ''    '') (map (getEncodedValueFor ext config) flds) @ ''\<newline>'' @
              ''        ));\<newline>'' @
              ''    }''))
       \<and> (generateSolidity ext config = Inr r \<longrightarrow>
            gettersBefore config i < length (snd (snd r))
          \<and> snd (snd (snd r) ! gettersBefore config i) =
             (\<lparr>path = dedent ext [''/hash-getters/'', ''.md''] [getPacketHashGetterName config typeName]\<rparr>,
              dedent ext
                [''    /**'', ''\<newline>'' @ TAB @ TAB @ TAB @ TAB @ ''    */'', []]
                [getPacketHashGetters1_documentation ext typeName,
                 ''function '' @ getPacketHashGetterName config typeName @ ''(\<newline>'' @
                 ''      '' @ Contract.name (contract config) @ ''Lib.'' @ typeName @ '' memory $input\<newline>'' @
                 '') public pure virtual returns (bytes32 $hash) {\<newline>'' @
                 TAB @ ''    $hash = keccak256(\<newline>'' @
                 TAB @ TAB @ TAB @ ''abi.encode(\<newline>'' @
                 TAB @ TAB @ TAB @ TAB @ typeHashName typeName @ '',\<newline>'' @
                 TAB @ TAB @ TAB @ TAB @ join ('',\<newline>'' @ TAB @ TAB @ ''        '') (map (getEncodedValueFor ext config) flds) @ ''\<newline>'' @
                 TAB @ TAB @ TAB @ '')\<newline>'' @
                 TAB @ ''    );\<newline>'' @
                 ''}'']))\<close>
proof -
  have v2: "gettersBefore config i < length (packetHashGetters g)
          \<and> snd (packetHashGetters g ! gettersBefore config i) =
              getPacketHashGetters2_first ext config typeName flds"
    if run: "getSolidity ext config = Inr g"
  proof -
    have m: "map snd (packetHashGetters g) = concat (map (createdGetters2 ext config) (types config))"
      by (rule getSolidity_lists(2) [OF assms(1) run])
    have l: "gettersBefore config i < length (packetHashGetters g)"
      using created2_nth(2) [OF assms(2,3), of ext] m by (metis length_map)
    then have "snd (packetHashGetters g ! gettersBefore config i) =
               map snd (packetHashGetters g) ! gettersBefore config i" by simp
    with l show ?thesis by (simp add: m created2_nth(1) [OF assms(2,3)])
  qed
  have v1: "gettersBefore config i < length (snd (snd r))
          \<and> snd (snd (snd r) ! gettersBefore config i) =
              getPacketHashGetters1_first ext config typeName flds"
    if run: "generateSolidity ext config = Inr r"
  proof -
    have m: "map snd (snd (snd r)) = concat (map (createdGetters1 ext config) (types config))"
      by (rule generateSolidity_getters [OF assms(1) run])
    have l: "gettersBefore config i < length (snd (snd r))"
      using created1_nth(2) [OF assms(2,3), of ext] m by (metis length_map)
    then have "snd (snd (snd r) ! gettersBefore config i) =
               map snd (snd (snd r)) ! gettersBefore config i" by simp
    with l show ?thesis by (simp add: m created1_nth(1) [OF assms(2,3)])
  qed
  have t2: "getPacketHashGetters2_first ext config typeName flds =
             (\<lparr>path = ''/hash-getters/'' @ getPacketHashGetterName config typeName @ ''.md''\<rparr>,
              ''    /**'' @ getPacketHashGetters2_documentation typeName @ ''\<newline>     */'' @
              ''\<newline>'' @
              ''    function '' @ getPacketHashGetterName config typeName @ ''(\<newline>'' @
              ''        '' @ Contract.name (contract config) @ ''Lib.'' @ typeName @ '' memory $input\<newline>'' @
              ''    ) public pure virtual returns (bytes32 $hash) {\<newline>'' @
              ''        $hash = keccak256(abi.encode(\<newline>'' @
              ''            '' @ typeHashName typeName @ '',\<newline>'' @
              ''            '' @ join ('',\<newline>'' @ TAB @ ''    '') (map (getEncodedValueFor ext config) flds) @ ''\<newline>'' @
              ''        ));\<newline>'' @
              ''    }'')"
    using assms(4)
    by (simp add: getPacketHashGetters2_first_def getPacketHashGetters2_implementation_def
        typeHashName_def Let_def)
  have t1: "getPacketHashGetters1_first ext config typeName flds =
             (\<lparr>path = dedent ext [''/hash-getters/'', ''.md''] [getPacketHashGetterName config typeName]\<rparr>,
              dedent ext
                [''    /**'', ''\<newline>'' @ TAB @ TAB @ TAB @ TAB @ ''    */'', []]
                [getPacketHashGetters1_documentation ext typeName,
                 ''function '' @ getPacketHashGetterName config typeName @ ''(\<newline>'' @
                 ''      '' @ Contract.name (contract config) @ ''Lib.'' @ typeName @ '' memory $input\<newline>'' @
                 '') public pure virtual returns (bytes32 $hash) {\<newline>'' @
                 TAB @ ''    $hash = keccak256(\<newline>'' @
                 TAB @ TAB @ TAB @ ''abi.encode(\<newline>'' @
                 TAB @ TAB @ TAB @ TAB @ typeHashName typeName @ '',\<newline>'' @
                 TAB @ TAB @ TAB @ TAB @ join ('',\<newline>'' @ TAB @ TAB @ ''        '') (map (getEncodedValueFor ext config) flds) @ ''\<newline>'' @
                 TAB @ TAB @ TAB @ '')\<newline>'' @
                 TAB @ ''    );\<newline>'' @
                 ''}''])"
    using assms(4)
    by (simp add: getPacketHashGetters1_first_def getPacketHashGetters1_implementation_def
        typeHashName_def Let_def)
  show ?thesis using v1 v2 unfolding t1 t2 by (intro conjI impI) auto
qed


theorem packet_hash_getter_encodes_fields_in_order_witness:
  \<open>distinct (map fst (types sharedArrayConfig))
   \<and> 2 < length (types sharedArrayConfig)
   \<and> types sharedArrayConfig ! 2 =
       (''Mail'', [\<lparr>name = ''signers'', type = ''Person[]''\<rparr>, \<lparr>name = ''box'', type = ''Box''\<rparr>])
   \<and> \<not> str_includes ''Mail'' ''[]''
   \<and> gettersBefore sharedArrayConfig 2 = 3
   \<and> (case getSolidity acceptingLibraries sharedArrayConfig of
         Inl e \<Rightarrow> False
       | Inr g \<Rightarrow>
           3 < length (packetHashGetters g)
         \<and> snd (packetHashGetters g ! 3) =
             (\<lparr>path = ''/hash-getters/getMailHash.md''\<rparr>,
              ''    /**'' @ getPacketHashGetters2_documentation ''Mail'' @ ''\<newline>     */'' @
              ''\<newline>'' @
              ''    function getMailHash(\<newline>'' @
              ''        TypesLib.Mail memory $input\<newline>'' @
              ''    ) public pure virtual returns (bytes32 $hash) {\<newline>'' @
              ''        $hash = keccak256(abi.encode(\<newline>'' @
              ''            MAIL_TYPEHASH,\<newline>'' @
              ''            getPersonArrayHash($input.signers),\<newline>'' @
              TAB @ ''    getBoxHash($input.box)\<newline>'' @
              ''        ));\<newline>'' @
              ''    }''))
   \<and> (case generateSolidity acceptingLibraries sharedArrayConfig of
         Inl e \<Rightarrow> False
       | Inr r \<Rightarrow>
           3 < length (snd (snd r))
         \<and> snd (snd (snd r) ! 3) =
             (\<lparr>path = ''/hash-getters/getMailHash.md''\<rparr>,
              ''    /**'' @ getPacketHashGetters1_documentation acceptingLibraries ''Mail'' @
              ''\<newline>'' @ TAB @ TAB @ TAB @ TAB @ ''    */'' @
              ''function getMailHash(\<newline>'' @
              ''      TypesLib.Mail memory $input\<newline>'' @
              '') public pure virtual returns (bytes32 $hash) {\<newline>'' @
              TAB @ ''    $hash = keccak256(\<newline>'' @
              TAB @ TAB @ TAB @ ''abi.encode(\<newline>'' @
              TAB @ TAB @ TAB @ TAB @ ''MAIL_TYPEHASH,\<newline>'' @
              TAB @ TAB @ TAB @ TAB @ ''getPersonArrayHash($input.signers),\<newline>'' @
              TAB @ TAB @ ''        getBoxHash($input.box)\<newline>'' @
              TAB @ TAB @ TAB @ '')\<newline>'' @
              TAB @ ''    );\<newline>'' @
              ''}''))\<close>
proof -
  have d: "distinct (map fst (types sharedArrayConfig))" by (simp add: evalConfigs)
  have l: "2 < length (types sharedArrayConfig)" by (simp add: evalConfigs)
  have n: "types sharedArrayConfig ! 2 =
       (''Mail'', [\<lparr>name = ''signers'', type = ''Person[]''\<rparr>, \<lparr>name = ''box'', type = ''Box''\<rparr>])"
    by (simp add: evalConfigs)
  have h: \<open>\<not> str_includes ''Mail'' ''[]''\<close> by simp
  have b: "gettersBefore sharedArrayConfig 2 = 3" by (simp add: gettersBefore_def evalConfigs)
  obtain g where g: "getSolidity acceptingLibraries sharedArrayConfig = Inr g"
    using getSolidity_accepting [OF d, of acceptingLibraries "\<lambda>typeName. typeName @ ''(...)''"]
    by (auto simp: evalConfigs)
  obtain r where r: "generateSolidity acceptingLibraries sharedArrayConfig = Inr r"
    using generateSolidity_accepting [of acceptingLibraries sharedArrayConfig "\<lambda>typeName. typeName @ ''(...)''"]
    by (auto simp: evalConfigs)
  have names: "getPacketHashGetterName sharedArrayConfig ''Mail'' = ''getMailHash''"
    "Contract.name (contract sharedArrayConfig) = ''Types''"
    "typeHashName ''Mail'' = ''MAIL_TYPEHASH''"
    by (simp_all add: getPacketHashGetterName_def evalConfigs evalNames)
  have enc: "map (getEncodedValueFor acceptingLibraries sharedArrayConfig)
         [\<lparr>name = ''signers'', type = ''Person[]''\<rparr>, \<lparr>name = ''box'', type = ''Box''\<rparr>] =
        [''getPersonArrayHash($input.signers)'', ''getBoxHash($input.box)'']"
    by (simp add: getEncodedValueFor_def getPacketHashGetterName_def dropArrayMarker_def evalConfigs)
  have dd: "dedent acceptingLibraries = interpolate" by (simp add: acceptingLibraries_def)
  note inst = packet_hash_getter_encodes_fields_in_order
         [OF d l n h, of acceptingLibraries g r, unfolded g r b names enc dd]
  from inst have 1: "3 < length (packetHashGetters g)
         \<and> snd (packetHashGetters g ! 3) =
             (\<lparr>path = ''/hash-getters/getMailHash.md''\<rparr>,
              ''    /**'' @ getPacketHashGetters2_documentation ''Mail'' @ ''\<newline>     */'' @
              ''\<newline>'' @
              ''    function getMailHash(\<newline>'' @
              ''        TypesLib.Mail memory $input\<newline>'' @
              ''    ) public pure virtual returns (bytes32 $hash) {\<newline>'' @
              ''        $hash = keccak256(abi.encode(\<newline>'' @
              ''            MAIL_TYPEHASH,\<newline>'' @
              ''            getPersonArrayHash($input.signers),\<newline>'' @
              TAB @ ''    getBoxHash($input.box)\<newline>'' @
              ''        ));\<newline>'' @
              ''    }'')"
    by (simp add: TAB_def)
  from inst have 2: "3 < length (snd (snd r))
         \<and> snd (snd (snd r) ! 3) =
             (\<lparr>path = ''/hash-getters/getMailHash.md''\<rparr>,
              ''    /**'' @ getPacketHashGetters1_documentation acceptingLibraries ''Mail'' @
              ''\<newline>'' @ TAB @ TAB @ TAB @ TAB @ ''    */'' @
              ''function getMailHash(\<newline>'' @
              ''      TypesLib.Mail memory $input\<newline>'' @
              '') public pure virtual returns (bytes32 $hash) {\<newline>'' @
              TAB @ ''    $hash = keccak256(\<newline>'' @
              TAB @ TAB @ TAB @ ''abi.encode(\<newline>'' @
              TAB @ TAB @ TAB @ TAB @ ''MAIL_TYPEHASH,\<newline>'' @
              TAB @ TAB @ TAB @ TAB @ ''getPersonArrayHash($input.signers),\<newline>'' @
              TAB @ TAB @ ''        getBoxHash($input.box)\<newline>'' @
              TAB @ TAB @ TAB @ '')\<newline>'' @
              TAB @ ''    );\<newline>'' @
              ''}'')"
    by (simp add: TAB_def)
  show ?thesis
    unfolding g r sum.case
    using d l n h b 1 2 by (intro conjI) (erule conjunct1 conjunct2 | assumption)+
qed


















section \<open>Merging the baseline and the extension\<close>

lemma join_mem: "x \<in> set xs \<Longrightarrow> \<exists>p q. join sep xs = p @ x @ q"
proof (induction sep xs rule: join.induct)
  case (1 sep)
  then show ?case by simp
next
  case (2 sep y)
  then have "join sep [y] = [] @ x @ []" by simp
  then show ?case by blast
next
  case (3 sep y z zs)
  show ?case
  proof (cases "x = y")
    case True
    then have "join sep (y # z # zs) = [] @ x @ (sep @ join sep (z # zs))" by simp
    then show ?thesis by blast
  next
    case False
    then obtain p q where "join sep (z # zs) = p @ x @ q" using 3 by auto
    then have "join sep (y # z # zs) = (y @ sep @ p) @ x @ q" by simp
    then show ?thesis by blast
  qed
qed

lemma join_append:
  "xs \<noteq> [] \<Longrightarrow> ys \<noteq> [] \<Longrightarrow> join sep (xs @ ys) = join sep xs @ sep @ join sep ys"
proof (induction sep xs rule: join.induct)
  case (1 sep)
  then show ?case by simp
next
  case (2 sep x)
  then show ?case by (cases ys) simp_all
next
  case (3 sep x y zs)
  then show ?case by simp
qed

lemma join_two_mem:
  assumes "x \<in> set xs" and "y \<in> set ys"
  shows "\<exists>p q r. join sep (xs @ ys) = p @ x @ q @ y @ r"
proof -
  have ne: "xs \<noteq> []" "ys \<noteq> []" using assms by auto
  obtain p1 q1 where 1: "join sep xs = p1 @ x @ q1" using join_mem [OF assms(1)] by blast
  obtain p2 q2 where 2: "join sep ys = p2 @ y @ q2" using join_mem [OF assms(2)] by blast
  have "join sep (xs @ ys) = p1 @ x @ (q1 @ sep @ p2) @ y @ q2"
    by (simp add: join_append [OF ne] 1 2)
  then show ?thesis by blast
qed

lemma getSolidity_structs:
  assumes "distinct (map fst (types config))" and "getSolidity ext config = Inr g"
  shows "map struct (results g) = map (\<lambda>e. getSolidity_struct (fst e) (snd e)) (types config)"
  using getSolidity_Inr [OF assms] by (auto simp: typeSetupOf_def)

lemma generate2_Inl:
  "generate2 ext constantsConfig config = Inl err \<longleftrightarrow>
     getSolidity ext (constantsConfig\<lparr>contract := contract config\<rparr>) = Inl err
   \<or> ((\<exists>eip712. getSolidity ext (constantsConfig\<lparr>contract := contract config\<rparr>) = Inr eip712)
      \<and> getSolidity ext config = Inl err)"
  unfolding generate2_def Let_def by (simp split: sum.splits)

lemma generate2_Inr:
  assumes "generate2 ext constantsConfig config = Inr (lines, pages)"
  shows "\<exists>eip712 own p q rest.
           getSolidity ext (constantsConfig\<lparr>contract := contract config\<rparr>) = Inr eip712
         \<and> getSolidity ext config = Inr own
         \<and> lines = p @ join ''\<newline>\<newline>'' (map struct (results eip712 @ results own)) @ q
         \<and> pages = map snd (typeHashGetters eip712) @ map snd (typeHashGetters own) @ rest"
proof -
  obtain eip712 own where b: "getSolidity ext (constantsConfig\<lparr>contract := contract config\<rparr>) = Inr eip712"
    and ow: "getSolidity ext config = Inr own"
    using assms unfolding generate2_def Let_def by (auto split: sum.splits)
  obtain a1 a2 a3 a4 a5 a6 a7 a8 a9 a10 a11 a12 where
    l: "lines = join ''\<newline>'' [a1, a2, a3, a4, a5,
          join ''\<newline>\<newline>'' (map struct (results eip712 @ results own)), a6, a7, a8, a9, a10, a11, a12]"
    using assms unfolding generate2_def Let_def b ow sum.case by blast
  have pg: "pages = map snd (typeHashGetters eip712) @ map snd (typeHashGetters own) @
      (map fst (map snd (packetHashGetters eip712) @ map snd (packetHashGetters own)) @
       map (fst \<circ> snd) (digestGetters own) @ map (fst \<circ> snd) (signerGetters own))"
    using assms unfolding generate2_def Let_def b ow sum.case by simp
  have "\<exists>p q. lines = p @ join ''\<newline>\<newline>'' (map struct (results eip712 @ results own)) @ q"
    unfolding l by (rule join_mem) simp
  then show ?thesis using b ow pg by blast
qed

lemma count_list_mem: "x \<in> set xs \<Longrightarrow> 1 \<le> count_list xs x"
  by (induction xs) auto

text \<open>
  C3, amended. \<open>generate\<close> runs the generator on the baseline and on the extension and
  concatenates the two results; it compares no names. It fails exactly when one of the two
  runs fails. When a type name is declared in both schemas and the runs do not fail, the
  bundle holds the struct of the baseline and the struct of the extension, in that order,
  and the documentation holds the page of that type twice.
\<close>

theorem generate_concatenates_without_collision_check:
  assumes "distinct (map fst (types constantsConfig))" and "distinct (map fst (types config))"
      and "(typeName, baselineFields) \<in> set (types constantsConfig)"
      and "(typeName, ownFields) \<in> set (types config)"
  shows "(generate2 ext constantsConfig config = Inl err \<longleftrightarrow>
            getSolidity ext (constantsConfig\<lparr>contract := contract config\<rparr>) = Inl err
          \<or> ((\<exists>eip712. getSolidity ext (constantsConfig\<lparr>contract := contract config\<rparr>) = Inr eip712)
             \<and> getSolidity ext config = Inl err))
       \<and> (generate2 ext constantsConfig config = Inr (lines, pages) \<longrightarrow>
            (\<exists>p q r. lines = p @ getSolidity_struct typeName baselineFields @ q @
                              getSolidity_struct typeName ownFields @ r)
          \<and> 2 \<le> count_list pages \<lparr>path = ''/base-types/'' @ typeName @ ''.md''\<rparr>)"
proof -
  let ?base = "constantsConfig\<lparr>contract := contract config\<rparr>"
  let ?page = "\<lparr>path = ''/base-types/'' @ typeName @ ''.md''\<rparr>"
  have db: "distinct (map fst (types ?base))" using assms(1) by simp
  have "(\<exists>p q r. lines = p @ getSolidity_struct typeName baselineFields @ q @
                              getSolidity_struct typeName ownFields @ r)
          \<and> 2 \<le> count_list pages ?page"
    if run: "generate2 ext constantsConfig config = Inr (lines, pages)"
  proof -
    from generate2_Inr [OF run] obtain eip712 own p q rest where
      b: "getSolidity ext ?base = Inr eip712" and o: "getSolidity ext config = Inr own"
      and l: "lines = p @ join ''\<newline>\<newline>'' (map struct (results eip712 @ results own)) @ q"
      and pg: "pages = map snd (typeHashGetters eip712) @ map snd (typeHashGetters own) @ rest"
      by blast
    have sb: "map struct (results eip712) =
              map (\<lambda>e. getSolidity_struct (fst e) (snd e)) (types constantsConfig)"
      using getSolidity_structs [OF db b] by simp
    have so: "map struct (results own) = map (\<lambda>e. getSolidity_struct (fst e) (snd e)) (types config)"
      by (rule getSolidity_structs [OF assms(2) o])
    have "getSolidity_struct typeName baselineFields \<in> set (map struct (results eip712))"
      unfolding sb using assms(3) by force
    moreover have "getSolidity_struct typeName ownFields \<in> set (map struct (results own))"
      unfolding so using assms(4) by force
    ultimately obtain p' q' r' where
      "join ''\<newline>\<newline>'' (map struct (results eip712) @ map struct (results own)) =
         p' @ getSolidity_struct typeName baselineFields @ q' @ getSolidity_struct typeName ownFields @ r'"
      using join_two_mem by blast
    then have "lines = (p @ p') @ getSolidity_struct typeName baselineFields @ q' @
                 getSolidity_struct typeName ownFields @ (r' @ q)"
      unfolding l by simp
    then have 1: "\<exists>p q r. lines = p @ getSolidity_struct typeName baselineFields @ q @
                              getSolidity_struct typeName ownFields @ r"
      by blast
    have "?page \<in> set (map snd (typeHashGetters eip712))"
      unfolding getSolidity_lists(1) [OF db b] using assms(3) by (force simp: basePage_def)
    then have c1: "1 \<le> count_list (map snd (typeHashGetters eip712)) ?page"
      by (rule count_list_mem)
    have "?page \<in> set (map snd (typeHashGetters own))"
      unfolding getSolidity_lists(1) [OF assms(2) o] using assms(4) by (force simp: basePage_def)
    then have c2: "1 \<le> count_list (map snd (typeHashGetters own)) ?page"
      by (rule count_list_mem)
    have 2: "2 \<le> count_list pages ?page"
      unfolding pg using c1 c2 by simp
    show ?thesis using 1 2 by (rule conjI)
  qed
  then show ?thesis using generate2_Inl [of ext constantsConfig config err] by blast
qed


lemma generate2_pages:
  assumes "getSolidity ext (constantsConfig\<lparr>contract := contract config\<rparr>) = Inr eip712"
      and "getSolidity ext config = Inr own"
  shows "map_sum id (\<lambda>r. map path (snd r)) (generate2 ext constantsConfig config) =
         Inr (map (\<lambda>x. path (snd x)) (typeHashGetters eip712) @
              map (\<lambda>x. path (snd x)) (typeHashGetters own) @
              map (\<lambda>x. path (fst (snd x))) (packetHashGetters eip712) @
              map (\<lambda>x. path (fst (snd x))) (packetHashGetters own) @
              map (\<lambda>x. path (fst (snd x))) (digestGetters own) @
              map (\<lambda>x. path (fst (snd x))) (signerGetters own))"
  unfolding generate2_def Let_def assms sum.case by (simp add: comp_def)

lemma colliding_runs:
  "distinct (map fst (types baselineConfig))"
  "distinct (map fst (types collidingConfig))"
  "\<exists>g. getSolidity acceptingLibraries (baselineConfig\<lparr>contract := contract collidingConfig\<rparr>) = Inr g"
  "\<exists>g. getSolidity acceptingLibraries collidingConfig = Inr g"
proof -
  show d1: "distinct (map fst (types baselineConfig))" by (simp add: evalConfigs)
  show d2: "distinct (map fst (types collidingConfig))" by (simp add: evalConfigs)
  have d1': "distinct (map fst (types (baselineConfig\<lparr>contract := contract collidingConfig\<rparr>)))"
    using d1 by simp
  show "\<exists>g. getSolidity acceptingLibraries (baselineConfig\<lparr>contract := contract collidingConfig\<rparr>) = Inr g"
    using getSolidity_accepting [OF d1', of acceptingLibraries "\<lambda>typeName. typeName @ ''(...)''"]
    by (auto simp: evalConfigs)
  show "\<exists>g. getSolidity acceptingLibraries collidingConfig = Inr g"
    using getSolidity_accepting [OF d2, of acceptingLibraries "\<lambda>typeName. typeName @ ''(...)''"]
    by (auto simp: evalConfigs)
qed

text \<open>
  C3, as stated: an extension that declares a type name of the baseline makes generation
  fail with a configuration error. Here both schemas declare \<open>EIP712Domain\<close>, and
  \<open>generate\<close> returns a bundle whose documentation lists the type and its getter twice.
\<close>

theorem generate_keeps_both_definitions:
  "''EIP712Domain'' \<in> set (map fst (types baselineConfig))
   \<and> ''EIP712Domain'' \<in> set (map fst (types collidingConfig))
   \<and> map_sum id (\<lambda>r. map path (snd r)) (generate2 acceptingLibraries baselineConfig collidingConfig) =
       Inr [''/base-types/EIP712Domain.md'', ''/base-types/EIP712Domain.md'',
            ''/hash-getters/getEIP712DomainHash.md'', ''/hash-getters/getEIP712DomainHash.md'']"
proof -
  let ?base = "baselineConfig\<lparr>contract := contract collidingConfig\<rparr>"
  obtain b where b: "getSolidity acceptingLibraries ?base = Inr b"
    using colliding_runs(3) by blast
  obtain own where o: "getSolidity acceptingLibraries collidingConfig = Inr own"
    using colliding_runs(4) by blast
  have db: "distinct (map fst (types ?base))" using colliding_runs(1) by simp
  have t: "types ?base = [(''EIP712Domain'', domainFields)]"
    "types collidingConfig = [(''EIP712Domain'', [\<lparr>name = ''name'', type = ''string''\<rparr>])]"
    by (simp_all add: baselineConfig_def collidingConfig_def)
  have n: "getPacketHashGetterName ?base ''EIP712Domain'' = ''getEIP712DomainHash''"
    "getPacketHashGetterName collidingConfig ''EIP712Domain'' = ''getEIP712DomainHash''"
    by (simp_all add: getPacketHashGetterName_def evalConfigs)
  have s: "signerGettersOf collidingConfig (''EIP712Domain'', [\<lparr>name = ''name'', type = ''string''\<rparr>]) = []"
    by (simp add: signerGettersOf_def signerEntry_def)
  have 1: "map (\<lambda>x. path (snd x)) (typeHashGetters b) = [''/base-types/EIP712Domain.md'']"
    unfolding getSolidity_pages(2) [OF db b] t by simp
  have 2: "map (\<lambda>x. path (snd x)) (typeHashGetters own) = [''/base-types/EIP712Domain.md'']"
    unfolding getSolidity_pages(2) [OF colliding_runs(2) o] t by simp
  have 3: "map (\<lambda>x. path (fst (snd x))) (packetHashGetters b) = [''/hash-getters/getEIP712DomainHash.md'']"
    unfolding getSolidity_pages(3) [OF db b] t by (simp add: n domainFields_def)
  have 4: "map (\<lambda>x. path (fst (snd x))) (packetHashGetters own) = [''/hash-getters/getEIP712DomainHash.md'']"
    unfolding getSolidity_pages(3) [OF colliding_runs(2) o] t by (simp add: n)
  have 5: "map (\<lambda>x. path (fst (snd x))) (digestGetters own) = []"
    unfolding getSolidity_getter_paths(1) [OF colliding_runs(2) o] t by simp
  have 6: "map (\<lambda>x. path (fst (snd x))) (signerGetters own) = []"
    unfolding getSolidity_getter_paths(2) [OF colliding_runs(2) o] t by (simp add: s)
  have "map_sum id (\<lambda>r. map path (snd r)) (generate2 acceptingLibraries baselineConfig collidingConfig) =
       Inr [''/base-types/EIP712Domain.md'', ''/base-types/EIP712Domain.md'',
            ''/hash-getters/getEIP712DomainHash.md'', ''/hash-getters/getEIP712DomainHash.md'']"
    unfolding generate2_pages [OF b o] 1 2 3 4 5 6 by simp
  moreover have "''EIP712Domain'' \<in> set (map fst (types baselineConfig))"
    by (simp add: baselineConfig_def)
  moreover have "''EIP712Domain'' \<in> set (map fst (types collidingConfig))"
    by (simp add: collidingConfig_def)
  ultimately show ?thesis by (intro conjI) assumption+
qed

theorem generate_concatenates_without_collision_check_witness:
  "distinct (map fst (types baselineConfig))
   \<and> distinct (map fst (types collidingConfig))
   \<and> (''EIP712Domain'', domainFields) \<in> set (types baselineConfig)
   \<and> (''EIP712Domain'', [\<lparr>name = ''name'', type = ''string''\<rparr>]) \<in> set (types collidingConfig)
   \<and> (case generate2 acceptingLibraries baselineConfig collidingConfig of
        Inl e \<Rightarrow> False
      | Inr bundle \<Rightarrow>
          (\<exists>p q r. fst bundle =
             p @ getSolidity_struct ''EIP712Domain'' domainFields @ q @
             getSolidity_struct ''EIP712Domain'' [\<lparr>name = ''name'', type = ''string''\<rparr>] @ r)
          \<and> 2 \<le> count_list (snd bundle) \<lparr>path = ''/base-types/EIP712Domain.md''\<rparr>)"
proof -
  let ?base = "baselineConfig\<lparr>contract := contract collidingConfig\<rparr>"
  obtain b where b: "getSolidity acceptingLibraries ?base = Inr b"
    using colliding_runs(3) by blast
  obtain own where o: "getSolidity acceptingLibraries collidingConfig = Inr own"
    using colliding_runs(4) by blast
  have h3: "(''EIP712Domain'', domainFields) \<in> set (types baselineConfig)"
    by (simp add: baselineConfig_def)
  have h4: "(''EIP712Domain'', [\<lparr>name = ''name'', type = ''string''\<rparr>]) \<in> set (types collidingConfig)"
    by (simp add: collidingConfig_def)
  obtain lines pages where run: "generate2 acceptingLibraries baselineConfig collidingConfig = Inr (lines, pages)"
    using generate2_pages [OF b o]
    by (cases "generate2 acceptingLibraries baselineConfig collidingConfig") auto
  from generate_concatenates_without_collision_check
         [OF colliding_runs(1) colliding_runs(2) h3 h4, of acceptingLibraries PacketHashNameError lines pages] run
  have "(\<exists>p q r. lines =
             p @ getSolidity_struct ''EIP712Domain'' domainFields @ q @
             getSolidity_struct ''EIP712Domain'' [\<lparr>name = ''name'', type = ''string''\<rparr>] @ r)
          \<and> 2 \<le> count_list pages \<lparr>path = ''/base-types/EIP712Domain.md''\<rparr>"
    by simp
  then show ?thesis
    unfolding run sum.case fst_conv snd_conv
    using colliding_runs(1) colliding_runs(2) h3 h4 by (intro conjI) (assumption | erule conjunct1 | erule conjunct2)+
qed

section \<open>Arrays of primitive types\<close>

text \<open>
  C4, at a type Ledger with a field \<open>values\<close> of type \<open>uint256[]\<close>: the array type passes
  the basic-type test, which comes before the branch for arrays, so the field is encoded
  as its raw value and not as a call of the array getter \<open>getuint256ArrayHash\<close>, which
  \<open>getPacketHashGetters\<close> emits for the field all the same.
\<close>

theorem getEncodedValueFor_primitive_array:
  "getEncodedValueFor acceptingLibraries ledgerConfig \<lparr>name = ''values'', type = ''uint256[]''\<rparr>
     = ''$input.values''
   \<and> getPacketHashGetterName ledgerConfig ''uint256[]'' @ ''($input.values)''
     = ''getuint256ArrayHash($input.values)''
   \<and> map_sum id (\<lambda>g. map (\<lambda>x. path (fst (snd x))) (packetHashGetters g))
       (getSolidity acceptingLibraries ledgerConfig) =
     Inr [''/hash-getters/getLedgerHash.md'', ''/hash-getters/getuint256ArrayHash.md'']"
proof -
  have d: "distinct (map fst (types ledgerConfig))" by (simp add: ledgerConfig_def)
  obtain g where g: "getSolidity acceptingLibraries ledgerConfig = Inr g"
    using getSolidity_accepting [OF d, of acceptingLibraries "\<lambda>typeName. typeName @ ''(...)''"]
    by (auto simp: evalConfigs)
  have 1: "getEncodedValueFor acceptingLibraries ledgerConfig \<lparr>name = ''values'', type = ''uint256[]''\<rparr>
     = ''$input.values''"
    by (simp add: getEncodedValueFor_def acceptingLibraries_def)
  have 2: "getPacketHashGetterName ledgerConfig ''uint256[]'' @ ''($input.values)''
     = ''getuint256ArrayHash($input.values)''"
    by (simp add: getPacketHashGetterName_def evalConfigs dropArrayMarker_def)
  have 3: "map_sum id (\<lambda>g. map (\<lambda>x. path (fst (snd x))) (packetHashGetters g))
       (getSolidity acceptingLibraries ledgerConfig) =
     Inr [''/hash-getters/getLedgerHash.md'', ''/hash-getters/getuint256ArrayHash.md'']"
    unfolding g map_sum.simps getSolidity_pages(3) [OF d g]
    by (simp add: evalConfigs getPacketHashGetterName_def dropArrayMarker_def)
  from 1 2 3 show ?thesis by (intro conjI) assumption+
qed

end
